theory Spec2Isabelle
  imports Main "HOL-Library.Word" "HOL-Library.Signed_Division"
begin

section \<open>C integers\<close>

text \<open>
  The module's \<open>int\<close> and \<open>unsigned int\<close> are 32 bits wide. Kernel modules are built
  with \<open>-fno-strict-overflow\<close>, so signed addition, subtraction and multiplication
  wrap around modulo \<open>2^32\<close>, which is what \<open>+\<close>, \<open>-\<close> and \<open>*\<close> on \<open>32 word\<close> do;
  \<open>sint\<close> reads a word as the signed C value. C's \<open>/\<close> on \<open>int\<close> truncates toward
  zero, which is \<open>sdiv\<close> on the signed readings.
\<close>

type_synonym c_int = "32 word"
type_synonym c_uint = "32 word"
type_synonym u16 = "16 word"

definition c_div :: "c_int \<Rightarrow> c_int \<Rightarrow> c_int" where
  "c_div a b = word_of_int (sint a sdiv sint b)"

section \<open>Constants of the input subsystem\<close>

text \<open>
  Event types, event codes and error numbers come from the kernel headers
  (\<open>linux/input-event-codes.h\<close>, \<open>linux/errno.h\<close>); the module only names them.
\<close>

definition EV_SYN :: c_uint where "EV_SYN = 0x00"
definition EV_KEY :: c_uint where "EV_KEY = 0x01"
definition EV_REL :: c_uint where "EV_REL = 0x02"
definition EV_ABS :: c_uint where "EV_ABS = 0x03"

definition REL_X :: c_uint where "REL_X = 0x00"
definition REL_Y :: c_uint where "REL_Y = 0x01"

definition ABS_X :: c_uint where "ABS_X = 0x00"
definition ABS_Y :: c_uint where "ABS_Y = 0x01"

definition BTN_LEFT :: c_uint where "BTN_LEFT = 0x110"
definition BTN_RIGHT :: c_uint where "BTN_RIGHT = 0x111"
definition BTN_MIDDLE :: c_uint where "BTN_MIDDLE = 0x112"

definition BTN_A :: c_uint where "BTN_A = 0x130"
definition BTN_B :: c_uint where "BTN_B = 0x131"
definition BTN_X :: c_uint where "BTN_X = 0x133"
definition BTN_Y :: c_uint where "BTN_Y = 0x134"
definition BTN_TL :: c_uint where "BTN_TL = 0x136"

definition KEY_E :: c_uint where "KEY_E = 18"
definition KEY_R :: c_uint where "KEY_R = 19"
definition KEY_LEFTBRACE :: c_uint where "KEY_LEFTBRACE = 26"
definition KEY_RIGHTBRACE :: c_uint where "KEY_RIGHTBRACE = 27"
definition KEY_G :: c_uint where "KEY_G = 34"
definition KEY_C :: c_uint where "KEY_C = 46"
definition KEY_B :: c_uint where "KEY_B = 48"

definition BUS_VIRTUAL :: u16 where "BUS_VIRTUAL = 0x06"

definition ENOMEM :: c_int where "ENOMEM = 12"
definition ENODEV :: c_int where "ENODEV = 19"

section \<open>Data model\<close>

text \<open>
  \<open>struct input_dev\<close>, restricted to the fields the module reads or writes. A bitmap
  (\<open>evbit\<close>, \<open>keybit\<close>, \<open>relbit\<close>, \<open>absbit\<close>) is the set of the indices of its set bits:
  \<open>test_bit n m\<close> is \<open>n \<in> m\<close> and \<open>set_bit n m\<close> is \<open>insert n m\<close>.
\<close>

record input_dev =
  dev_name :: string
  phys :: string
  id_bustype :: u16
  id_vendor :: u16
  id_product :: u16
  id_version :: u16
  evbit :: "nat set"
  keybit :: "nat set"
  relbit :: "nat set"
  absbit :: "nat set"

definition test_bit :: "c_uint \<Rightarrow> nat set \<Rightarrow> bool" where
  "test_bit n m = (unat n \<in> m)"

definition set_bit :: "c_uint \<Rightarrow> nat set \<Rightarrow> nat set" where
  "set_bit n m = insert (unat n) m"

text \<open>
  \<open>struct input_handle\<close>. The candidate device is read-only to the module, so the
  pointer \<open>handle->dev\<close> is represented by the device it points to; \<open>None\<close> is \<open>NULL\<close>,
  the content of a record fresh from \<open>kzalloc\<close>. The handler is identified by its name.
\<close>

record input_handle =
  h_dev :: "input_dev option"
  h_handler :: "string option"
  h_name :: "string option"

datatype kern_level = KERN_INFO | KERN_ERR

text \<open>
  The calls the module makes into the kernel, with their arguments (and, for the calls
  that can fail, the result the kernel gave). A pointer is an address, or \<open>None\<close> for
  \<open>NULL\<close>.
\<close>

datatype host_call =
    Input_allocate_device "nat option"
  | Input_register_device "nat option" c_int
  | Input_unregister_device "nat option"
  | Input_free_device "nat option"
  | Kzalloc "nat option"
  | Input_register_handle "nat option" c_int
  | Input_open_device "nat option" c_int
  | Input_close_device "nat option"
  | Input_unregister_handle "nat option"
  | Kfree "nat option"
  | Printk kern_level string
  | Input_report_rel "nat option" c_uint c_int
  | Input_report_key "nat option" c_uint c_int
  | Input_sync "nat option"

text \<open>
  The state: the module's five globals, and the part of the kernel the module acts on
  (the allocated input devices and handle records, which of them are registered and
  open, the allocator's next address, and the calls made so far, oldest first).
\<close>

record kstate =
  virtual_mouse :: "nat option"
  virtual_keyboard :: "nat option"
  joystick_handle :: "nat option"
  joystick_id :: c_int
  sensitivity :: c_int
  next_addr :: nat
  devs :: "nat \<rightharpoonup> input_dev"
  registered_devs :: "nat set"
  handles :: "nat \<rightharpoonup> input_handle"
  registered_handles :: "nat set"
  open_handles :: "nat set"
  trace :: "host_call list"

definition called :: "host_call \<Rightarrow> kstate \<Rightarrow> kstate" where
  "called c st = st\<lparr>trace := trace st @ [c]\<rparr>"

section \<open>Event delivery to the output devices\<close>

text \<open>
  \<open>input_report_rel\<close>, \<open>input_report_key\<close> and \<open>input_sync\<close> hand one event to an
  input device. What the kernel does with it is outside the module; the model records
  the call.
\<close>

definition input_report_rel :: "nat option \<Rightarrow> c_uint \<Rightarrow> c_int \<Rightarrow> kstate \<Rightarrow> kstate" where
  "input_report_rel dev code val st = called (Input_report_rel dev code val) st"

definition input_report_key :: "nat option \<Rightarrow> c_uint \<Rightarrow> c_int \<Rightarrow> kstate \<Rightarrow> kstate" where
  "input_report_key dev code val st = called (Input_report_key dev code val) st"

definition input_sync :: "nat option \<Rightarrow> kstate \<Rightarrow> kstate" where
  "input_sync dev st = called (Input_sync dev) st"

section \<open>The event translator\<close>

text \<open>
  \<open>joystick_event(handle, type, code, value)\<close>; the handle is not used by the body.
  The two \<open>switch\<close> statements become chains of tests on the code, in the order of
  their \<open>case\<close> labels.
\<close>

definition joystick_event :: "c_uint \<Rightarrow> c_uint \<Rightarrow> c_int \<Rightarrow> kstate \<Rightarrow> kstate" where
  "joystick_event type code val st =
    (let center = 128 in
     if type = EV_ABS then
       (if code = ABS_X then
          (let scaled_value = c_div ((val - center) * sensitivity st) 32 in
           input_sync (virtual_mouse st)
             (input_report_rel (virtual_mouse st) REL_X scaled_value st))
        else if code = ABS_Y then
          (let scaled_value = c_div ((val - center) * sensitivity st) 32 in
           input_sync (virtual_mouse st)
             (input_report_rel (virtual_mouse st) REL_Y scaled_value st))
        else st)
     else if type = EV_KEY then
       (if code = BTN_TL then
          input_sync (virtual_mouse st)
            (input_report_key (virtual_mouse st) BTN_LEFT val st)
        else if code = BTN_B then
          input_sync (virtual_keyboard st)
            (input_report_key (virtual_keyboard st) KEY_B val st)
        else if code = BTN_X then
          input_sync (virtual_keyboard st)
            (input_report_key (virtual_keyboard st) KEY_E val st)
        else if code = BTN_Y then
          input_sync (virtual_keyboard st)
            (input_report_key (virtual_keyboard st) KEY_RIGHTBRACE val st)
        else if code = BTN_A then
          input_sync (virtual_keyboard st)
            (input_report_key (virtual_keyboard st) KEY_LEFTBRACE val st)
        else st)
     else st)"

section \<open>The kernel's services for devices and handles\<close>

text \<open>
  The kernel functions the lifecycle code calls, by their documented contracts. Whether
  an allocation or a registration succeeds is the kernel's choice: it is an argument
  (\<open>ok\<close>, or the return code \<open>ret\<close>, 0 for success). An allocation returns the next
  free address. Every call is recorded in the trace.
\<close>

definition zero_dev :: input_dev where
  "zero_dev = \<lparr>dev_name = [], phys = [], id_bustype = 0, id_vendor = 0, id_product = 0,
     id_version = 0, evbit = {}, keybit = {}, relbit = {}, absbit = {}\<rparr>"

definition zero_handle :: input_handle where
  "zero_handle = \<lparr>h_dev = None, h_handler = None, h_name = None\<rparr>"

definition input_allocate_device :: "bool \<Rightarrow> kstate \<Rightarrow> nat option \<times> kstate" where
  "input_allocate_device ok st =
    (if ok then
       (Some (next_addr st),
        called (Input_allocate_device (Some (next_addr st)))
          (st\<lparr>next_addr := Suc (next_addr st),
              devs := (devs st)(next_addr st \<mapsto> zero_dev)\<rparr>))
     else (None, called (Input_allocate_device None) st))"

definition input_register_device :: "nat option \<Rightarrow> c_int \<Rightarrow> kstate \<Rightarrow> c_int \<times> kstate" where
  "input_register_device dev ret st =
    (ret, called (Input_register_device dev ret)
       (case dev of
          Some p \<Rightarrow> if ret = 0 then st\<lparr>registered_devs := insert p (registered_devs st)\<rparr> else st
        | None \<Rightarrow> st))"

text \<open>Unregistering a device also drops the module's reference, which frees it.\<close>

definition input_unregister_device :: "nat option \<Rightarrow> kstate \<Rightarrow> kstate" where
  "input_unregister_device dev st =
    called (Input_unregister_device dev)
      (case dev of
         Some p \<Rightarrow> st\<lparr>registered_devs := registered_devs st - {p}, devs := (devs st)(p := None)\<rparr>
       | None \<Rightarrow> st)"

definition input_free_device :: "nat option \<Rightarrow> kstate \<Rightarrow> kstate" where
  "input_free_device dev st =
    called (Input_free_device dev)
      (case dev of Some p \<Rightarrow> st\<lparr>devs := (devs st)(p := None)\<rparr> | None \<Rightarrow> st)"

definition kzalloc :: "bool \<Rightarrow> kstate \<Rightarrow> nat option \<times> kstate" where
  "kzalloc ok st =
    (if ok then
       (Some (next_addr st),
        called (Kzalloc (Some (next_addr st)))
          (st\<lparr>next_addr := Suc (next_addr st),
              handles := (handles st)(next_addr st \<mapsto> zero_handle)\<rparr>))
     else (None, called (Kzalloc None) st))"

definition kfree :: "nat option \<Rightarrow> kstate \<Rightarrow> kstate" where
  "kfree p st =
    called (Kfree p)
      (case p of Some h \<Rightarrow> st\<lparr>handles := (handles st)(h := None)\<rparr> | None \<Rightarrow> st)"

definition input_register_handle :: "nat option \<Rightarrow> c_int \<Rightarrow> kstate \<Rightarrow> c_int \<times> kstate" where
  "input_register_handle handle ret st =
    (ret, called (Input_register_handle handle ret)
       (case handle of
          Some h \<Rightarrow>
            if ret = 0 then st\<lparr>registered_handles := insert h (registered_handles st)\<rparr> else st
        | None \<Rightarrow> st))"

definition input_unregister_handle :: "nat option \<Rightarrow> kstate \<Rightarrow> kstate" where
  "input_unregister_handle handle st =
    called (Input_unregister_handle handle)
      (case handle of
         Some h \<Rightarrow> st\<lparr>registered_handles := registered_handles st - {h}\<rparr>
       | None \<Rightarrow> st)"

definition input_open_device :: "nat option \<Rightarrow> c_int \<Rightarrow> kstate \<Rightarrow> c_int \<times> kstate" where
  "input_open_device handle ret st =
    (ret, called (Input_open_device handle ret)
       (case handle of
          Some h \<Rightarrow> if ret = 0 then st\<lparr>open_handles := insert h (open_handles st)\<rparr> else st
        | None \<Rightarrow> st))"

definition input_close_device :: "nat option \<Rightarrow> kstate \<Rightarrow> kstate" where
  "input_close_device handle st =
    called (Input_close_device handle)
      (case handle of
         Some h \<Rightarrow> st\<lparr>open_handles := open_handles st - {h}\<rparr>
       | None \<Rightarrow> st)"

definition line :: "string \<Rightarrow> string" where
  "line s = s @ [CHR 0x0A]"

definition printk :: "kern_level \<Rightarrow> string \<Rightarrow> kstate \<Rightarrow> kstate" where
  "printk lvl msg st = called (Printk lvl msg) st"

text \<open>A store through a pointer to an allocated device or handle record.\<close>

definition set_dev :: "nat \<Rightarrow> (input_dev \<Rightarrow> input_dev) \<Rightarrow> kstate \<Rightarrow> kstate" where
  "set_dev p f st =
    (case devs st p of Some d \<Rightarrow> st\<lparr>devs := (devs st)(p \<mapsto> f d)\<rparr> | None \<Rightarrow> st)"

definition set_handle :: "nat \<Rightarrow> (input_handle \<Rightarrow> input_handle) \<Rightarrow> kstate \<Rightarrow> kstate" where
  "set_handle p f st =
    (case handles st p of Some r \<Rightarrow> st\<lparr>handles := (handles st)(p \<mapsto> f r)\<rparr> | None \<Rightarrow> st)"

section \<open>The device matcher\<close>

text \<open>What the kernel answers to the three fallible calls of one \<open>joystick_connect\<close>.\<close>

record connect_env =
  kzalloc_ok :: bool
  register_handle_ret :: c_int
  open_device_ret :: c_int

text \<open>
  The two cleanup labels of \<open>joystick_connect\<close>: \<open>err_unregister_handle\<close> falls through
  to \<open>err_free_handle\<close>, which returns the error.
\<close>

definition err_free_handle :: "nat \<Rightarrow> c_int \<Rightarrow> kstate \<Rightarrow> c_int \<times> kstate" where
  "err_free_handle handle error st = (error, kfree (Some handle) st)"

definition err_unregister_handle :: "nat \<Rightarrow> c_int \<Rightarrow> kstate \<Rightarrow> c_int \<times> kstate" where
  "err_unregister_handle handle error st =
    err_free_handle handle error (input_unregister_handle (Some handle) st)"

text \<open>
  \<open>joystick_connect(handler, dev, id)\<close>: the result is the return code and the new
  state. \<open>dev->id.product\<close> is a \<open>__u16\<close>, promoted to \<open>int\<close> for the comparison with
  \<open>joystick_id\<close>. The \<open>id\<close> argument is not used by the body.
\<close>

definition joystick_connect ::
  "string \<Rightarrow> input_dev \<Rightarrow> connect_env \<Rightarrow> kstate \<Rightarrow> c_int \<times> kstate" where
  "joystick_connect handler dev env st =
    (if joystick_id st \<noteq> - 1 \<and> ucast (id_product dev) \<noteq> joystick_id st then (- ENODEV, st)
     else if \<not> (test_bit ABS_X (absbit dev) \<and> test_bit ABS_Y (absbit dev)) then (- ENODEV, st)
     else
       (let (handle, st1) = kzalloc (kzalloc_ok env) st in
        case handle of
          None \<Rightarrow> (- ENOMEM, st1)
        | Some h \<Rightarrow>
            (let st2 = set_handle h (\<lambda>r. r\<lparr>h_dev := Some dev, h_handler := Some handler,
                                            h_name := Some ''joystick_drawer''\<rparr>) st1;
                 (error, st3) = input_register_handle (Some h) (register_handle_ret env) st2
             in if error \<noteq> 0 then err_free_handle h error st3
                else
                  (let (error, st4) = input_open_device (Some h) (open_device_ret env) st3
                   in if error \<noteq> 0 then err_unregister_handle h error st4
                      else
                        (0, printk KERN_INFO
                              (line (''joystick_drawer: Connected to '' @ dev_name dev))
                              (st4\<lparr>joystick_handle := Some h\<rparr>))))))"

text \<open>
  \<open>joystick_disconnect(handle)\<close> reads \<open>handle->dev->name\<close> first: on a pointer that is
  not a live handle record, or a record without a device, that read is invalid and the
  result is \<open>None\<close>.
\<close>

definition joystick_disconnect :: "nat \<Rightarrow> kstate \<Rightarrow> kstate option" where
  "joystick_disconnect handle st =
    (case handles st handle of
       None \<Rightarrow> None
     | Some r \<Rightarrow>
         (case h_dev r of
            None \<Rightarrow> None
          | Some d \<Rightarrow>
              Some (kfree (Some handle)
                     (input_unregister_handle (Some handle)
                       (input_close_device (Some handle)
                         (printk KERN_INFO
                            (line (''joystick_drawer: Disconnected from '' @ dev_name d))
                            st))))))"

section \<open>The virtual output devices\<close>

text \<open>What the kernel answers to the four fallible calls of \<open>create_virtual_devices\<close>.\<close>

record create_env =
  alloc_mouse_ok :: bool
  register_mouse_ret :: c_int
  alloc_keyboard_ok :: bool
  register_keyboard_ret :: c_int

text \<open>
  The cleanup labels of \<open>create_virtual_devices\<close>: \<open>err_free_keyboard\<close> falls through
  to \<open>err_unregister_mouse\<close>, which returns; \<open>err_free_mouse\<close> stands alone.
\<close>

definition err_unregister_mouse :: "c_int \<Rightarrow> kstate \<Rightarrow> c_int \<times> kstate" where
  "err_unregister_mouse error st =
    (error, (input_unregister_device (virtual_mouse st) st)\<lparr>virtual_mouse := None\<rparr>)"

definition err_free_keyboard :: "c_int \<Rightarrow> kstate \<Rightarrow> c_int \<times> kstate" where
  "err_free_keyboard error st =
    err_unregister_mouse error (input_free_device (virtual_keyboard st) st)"

definition err_free_mouse :: "c_int \<Rightarrow> kstate \<Rightarrow> c_int \<times> kstate" where
  "err_free_mouse error st = (error, input_free_device (virtual_mouse st) st)"

definition setup_mouse :: "input_dev \<Rightarrow> input_dev" where
  "setup_mouse d =
    d\<lparr>dev_name := ''Joystick Virtual Mouse'', phys := ''joydraw/mouse'',
      id_bustype := BUS_VIRTUAL, id_vendor := 0, id_product := 0, id_version := 0,
      evbit := set_bit EV_KEY (set_bit EV_REL (evbit d)),
      relbit := set_bit REL_Y (set_bit REL_X (relbit d)),
      keybit := set_bit BTN_MIDDLE (set_bit BTN_RIGHT (set_bit BTN_LEFT (keybit d)))\<rparr>"

definition setup_keyboard :: "input_dev \<Rightarrow> input_dev" where
  "setup_keyboard d =
    d\<lparr>dev_name := ''Joystick Virtual Keyboard'', phys := ''joydraw/keyboard'',
      id_bustype := BUS_VIRTUAL, id_vendor := 0, id_product := 0, id_version := 0,
      evbit := set_bit EV_KEY (evbit d),
      keybit := set_bit KEY_G (set_bit KEY_R (set_bit KEY_LEFTBRACE (set_bit KEY_RIGHTBRACE
                 (set_bit KEY_C (set_bit KEY_E (set_bit KEY_B (keybit d)))))))\<rparr>"

text \<open>
  \<open>create_virtual_devices()\<close>: the result is the return code and the new state. The
  pair a kernel call returns is its result (\<open>fst\<close>) and the state after it (\<open>snd\<close>).
\<close>

definition create_virtual_devices :: "create_env \<Rightarrow> kstate \<Rightarrow> c_int \<times> kstate" where
  "create_virtual_devices env st =
    (let a1 = input_allocate_device (alloc_mouse_ok env) st;
         st1 = (snd a1)\<lparr>virtual_mouse := fst a1\<rparr>
     in case virtual_mouse st1 of
          None \<Rightarrow>
            (- ENOMEM,
             printk KERN_ERR (line ''joystick_drawer: Not enough memory for virtual mouse'') st1)
        | Some mp \<Rightarrow>
            (let st2 = set_dev mp setup_mouse st1;
                 r1 = input_register_device (virtual_mouse st2) (register_mouse_ret env) st2;
                 error = fst r1;
                 st3 = snd r1
             in if error \<noteq> 0 then
                  err_free_mouse error
                    (printk KERN_ERR
                       (line ''joystick_drawer: Failed to register virtual mouse'') st3)
                else
                  (let a2 = input_allocate_device (alloc_keyboard_ok env) st3;
                       st4 = (snd a2)\<lparr>virtual_keyboard := fst a2\<rparr>
                   in case virtual_keyboard st4 of
                        None \<Rightarrow>
                          err_unregister_mouse (- ENOMEM)
                            (printk KERN_ERR
                               (line ''joystick_drawer: Not enough memory for virtual keyboard'')
                               st4)
                      | Some kp \<Rightarrow>
                          (let st5 = set_dev kp setup_keyboard st4;
                               r2 = input_register_device (virtual_keyboard st5)
                                      (register_keyboard_ret env) st5;
                               error = fst r2;
                               st6 = snd r2
                           in if error \<noteq> 0 then
                                err_free_keyboard error
                                  (printk KERN_ERR
                                     (line ''joystick_drawer: Failed to register virtual keyboard'')
                                     st6)
                              else (0, st6)))))"

section \<open>The state at module load and sequences of callbacks\<close>

text \<open>
  The globals as their initialisers leave them (\<open>joystick_id = -1\<close>, \<open>sensitivity = 5\<close>,
  the three pointers \<open>NULL\<close>), with nothing of the module's allocated yet.
\<close>

definition initial_state :: kstate where
  "initial_state =
    \<lparr>virtual_mouse = None, virtual_keyboard = None, joystick_handle = None,
     joystick_id = - 1, sensitivity = 5, next_addr = 1, devs = Map.empty,
     registered_devs = {}, handles = Map.empty, registered_handles = {},
     open_handles = {}, trace = []\<rparr>"

text \<open>
  Every address in use lies below the allocator's next address, so an allocation
  returns an address that nothing refers to.
\<close>

definition host_wf :: "kstate \<Rightarrow> bool" where
  "host_wf st \<longleftrightarrow>
    (\<forall>p. (p \<in> dom (devs st) \<or> p \<in> registered_devs st \<or> p \<in> dom (handles st)
          \<or> p \<in> registered_handles st \<or> p \<in> open_handles st) \<longrightarrow> p < next_addr st)"

text \<open>The kernel offers candidate devices one after the other.\<close>

fun connect_all :: "string \<Rightarrow> (input_dev \<times> connect_env) list \<Rightarrow> kstate \<Rightarrow> c_int list \<times> kstate" where
  "connect_all handler [] st = ([], st)"
| "connect_all handler ((dev, env) # cs) st =
    (let (r, st1) = joystick_connect handler dev env st;
         (rs, st2) = connect_all handler cs st1
     in (r # rs, st2))"

text \<open>The state after a module load in which every kernel call succeeded.\<close>

definition create_ok :: create_env where
  "create_ok = \<lparr>alloc_mouse_ok = True, register_mouse_ret = 0,
                 alloc_keyboard_ok = True, register_keyboard_ret = 0\<rparr>"

definition loaded_state :: kstate where
  "loaded_state = snd (create_virtual_devices create_ok initial_state)"

definition connect_ok :: connect_env where
  "connect_ok = \<lparr>kzalloc_ok = True, register_handle_ret = 0, open_device_ret = 0\<rparr>"

text \<open>A candidate device that reports both absolute axes, with product identity \<open>p\<close>.\<close>

definition joystick_dev :: "u16 \<Rightarrow> string \<Rightarrow> input_dev" where
  "joystick_dev p n =
    zero_dev\<lparr>dev_name := n, id_product := p, evbit := set_bit EV_ABS (set_bit EV_KEY {}),
              absbit := set_bit ABS_Y (set_bit ABS_X {})\<rparr>"

section \<open>Observations\<close>

text \<open>
  The events an output device has received are the \<open>input_report_rel\<close>,
  \<open>input_report_key\<close> and \<open>input_sync\<close> calls of the trace made on it.
\<close>

fun report_on :: "nat option \<Rightarrow> host_call \<Rightarrow> bool" where
  "report_on dev (Input_report_rel d c v) = (d = dev)"
| "report_on dev (Input_report_key d c v) = (d = dev)"
| "report_on dev other = False"

definition written_to :: "nat option \<Rightarrow> host_call \<Rightarrow> bool" where
  "written_to dev c = (report_on dev c \<or> c = Input_sync dev)"

definition device_log :: "nat option \<Rightarrow> kstate \<Rightarrow> host_call list" where
  "device_log dev st = filter (written_to dev) (trace st)"

text \<open>A Binding is live when its handle is registered with the kernel and open.\<close>

definition live_bindings :: "kstate \<Rightarrow> nat set" where
  "live_bindings st = registered_handles st \<inter> open_handles st"

text \<open>The acceptance predicate of \<open>joystick_connect\<close>: both of its tests pass.\<close>

definition accepts :: "kstate \<Rightarrow> input_dev \<Rightarrow> bool" where
  "accepts st dev \<longleftrightarrow>
    \<not> (joystick_id st \<noteq> - 1 \<and> ucast (id_product dev) \<noteq> joystick_id st)
    \<and> test_bit ABS_X (absbit dev) \<and> test_bit ABS_Y (absbit dev)"

section \<open>Arithmetic of the scaling formula\<close>

lemma sdiv32_bounds:
  fixes k :: int
  assumes "- (2 ^ 31) \<le> k" "k < 2 ^ 31"
  shows "- (2 ^ 31) \<le> k sdiv 32 \<and> k sdiv 32 < 2 ^ 31"
  using assms by (auto simp: signed_divide_int_def sgn_if)

lemma sint_c_div_32: "sint (c_div p 32) = sint p sdiv 32"
proof -
  have r: "- (2 ^ 31) \<le> sint p" "sint p < 2 ^ 31"
    using sint_ge [of p] sint_lt [of p] by simp_all
  have b: "- (2 ^ 31) \<le> sint p sdiv 32 \<and> sint p sdiv 32 < 2 ^ 31"
    using sdiv32_bounds [OF r] .
  have "sint (c_div p 32) = signed_take_bit 31 (sint p sdiv 32)"
    by (simp add: c_div_def sint_sbintrunc')
  also have "\<dots> = sint p sdiv 32"
    using b by (simp add: signed_take_bit_int_eq_self)
  finally show ?thesis .
qed

lemma sdiv32_truncates:
  "k sdiv 32 = (if 0 \<le> k then k div 32 else - ((- k) div (32::int)))"
  by (simp add: signed_divide_int_def sgn_if)

lemma sint_scaled_exact:
  fixes v s :: c_int
  assumes "- (2 ^ 31) \<le> sint v - 128"
    and "- (2 ^ 31) \<le> (sint v - 128) * sint s"
    and "(sint v - 128) * sint s < 2 ^ 31"
  shows "sint ((v - 128) * s) = (sint v - 128) * sint s"
proof -
  have "sint v < 2 ^ 31" using sint_lt [of v] by simp
  then have d: "sint (v - 128) = sint v - 128"
    using assms(1) by (simp add: sint_word_diff signed_take_bit_int_eq_self)
  show ?thesis
    using assms(2,3) by (simp add: sint_word_mult d signed_take_bit_int_eq_self)
qed

section \<open>Evaluating the model\<close>

lemmas input_codes =
  EV_SYN_def EV_KEY_def EV_REL_def EV_ABS_def REL_X_def REL_Y_def ABS_X_def ABS_Y_def
  BTN_LEFT_def BTN_RIGHT_def BTN_MIDDLE_def BTN_A_def BTN_B_def BTN_X_def BTN_Y_def
  BTN_TL_def KEY_E_def KEY_R_def KEY_LEFTBRACE_def KEY_RIGHTBRACE_def KEY_G_def
  KEY_C_def KEY_B_def

lemmas report_defs = input_report_rel_def input_report_key_def input_sync_def called_def

lemma joystick_event_abs:
  "code = ABS_X \<or> code = ABS_Y \<Longrightarrow>
   joystick_event EV_ABS code v st =
     st\<lparr>trace := trace st @
        [Input_report_rel (virtual_mouse st) (if code = ABS_X then REL_X else REL_Y)
           (c_div ((v - 128) * sensitivity st) 32),
         Input_sync (virtual_mouse st)]\<rparr>"
  by (auto simp: joystick_event_def report_defs input_codes)

lemmas host_defs =
  input_allocate_device_def input_register_device_def input_unregister_device_def
  input_free_device_def kzalloc_def kfree_def input_register_handle_def
  input_unregister_handle_def input_open_device_def input_close_device_def printk_def
  set_dev_def set_handle_def called_def

lemma create_ok_initial:
  "create_virtual_devices create_ok initial_state = (0, loaded_state)"
  by (simp add: loaded_state_def create_virtual_devices_def create_ok_def initial_state_def
      host_defs Let_def)

lemma loaded_state_fields:
  "virtual_mouse loaded_state = Some 1"
  "virtual_keyboard loaded_state = Some 2"
  "joystick_handle loaded_state = None"
  "joystick_id loaded_state = - 1"
  "sensitivity loaded_state = 5"
  "next_addr loaded_state = 3"
  "registered_devs loaded_state = {1, 2}"
  "handles loaded_state = Map.empty"
  "registered_handles loaded_state = {}"
  "open_handles loaded_state = {}"
  "dom (devs loaded_state) = {1, 2}"
  by (auto simp add: loaded_state_def create_virtual_devices_def create_ok_def initial_state_def
      host_defs Let_def)

lemma loaded_state_trace:
  "trace loaded_state =
    [Input_allocate_device (Some 1), Input_register_device (Some 1) 0,
     Input_allocate_device (Some 2), Input_register_device (Some 2) 0]"
  by (simp add: loaded_state_def create_virtual_devices_def create_ok_def initial_state_def
      host_defs Let_def)

lemma key_TL: "joystick_event EV_KEY BTN_TL v st =
        st\<lparr>trace := trace st @ [Input_report_key (virtual_mouse st) BTN_LEFT v,
                                  Input_sync (virtual_mouse st)]\<rparr>"
  by (simp add: joystick_event_def report_defs input_codes)

lemma key_B: "joystick_event EV_KEY BTN_B v st =
        st\<lparr>trace := trace st @ [Input_report_key (virtual_keyboard st) KEY_B v,
                                  Input_sync (virtual_keyboard st)]\<rparr>"
  by (simp add: joystick_event_def report_defs input_codes)

lemma key_X: "joystick_event EV_KEY BTN_X v st =
        st\<lparr>trace := trace st @ [Input_report_key (virtual_keyboard st) KEY_E v,
                                  Input_sync (virtual_keyboard st)]\<rparr>"
  by (simp add: joystick_event_def report_defs input_codes)

lemma key_Y: "joystick_event EV_KEY BTN_Y v st =
        st\<lparr>trace := trace st @ [Input_report_key (virtual_keyboard st) KEY_RIGHTBRACE v,
                                  Input_sync (virtual_keyboard st)]\<rparr>"
  by (simp add: joystick_event_def report_defs input_codes)

lemma key_A: "joystick_event EV_KEY BTN_A v st =
        st\<lparr>trace := trace st @ [Input_report_key (virtual_keyboard st) KEY_LEFTBRACE v,
                                  Input_sync (virtual_keyboard st)]\<rparr>"
  by (simp add: joystick_event_def report_defs input_codes)

lemma key_other:
  "code \<notin> {BTN_TL, BTN_B, BTN_X, BTN_Y, BTN_A} \<Longrightarrow> joystick_event EV_KEY code v st = st"
  by (simp add: joystick_event_def input_codes)

lemma abs_other:
  "code \<noteq> ABS_X \<Longrightarrow> code \<noteq> ABS_Y \<Longrightarrow> joystick_event EV_ABS code v st = st"
  by (simp add: joystick_event_def input_codes)

lemma type_other:
  "type \<noteq> EV_ABS \<Longrightarrow> type \<noteq> EV_KEY \<Longrightarrow> joystick_event type code v st = st"
  by (simp add: joystick_event_def)

lemma not_mapped: "BTN_RIGHT \<notin> {BTN_TL, BTN_B, BTN_X, BTN_Y, BTN_A}"
  by (simp add: input_codes)

lemma rel_not_handled: "EV_REL \<noteq> EV_ABS \<and> EV_REL \<noteq> EV_KEY"
  by (simp add: input_codes)

lemma device_log_append:
  "device_log dev (st\<lparr>trace := trace st @ cs\<rparr>) = device_log dev st @ filter (written_to dev) cs"
  by (simp add: device_log_def)

lemma device_log_other:
  "report_on dev c \<Longrightarrow> other \<noteq> dev \<Longrightarrow>
   device_log other (st\<lparr>trace := trace st @ [c, Input_sync dev]\<rparr>) = device_log other st"
  by (cases c) (auto simp: device_log_append written_to_def)

lemma device_log_own:
  "report_on dev c \<Longrightarrow>
   device_log dev (st\<lparr>trace := trace st @ [c, Input_sync dev]\<rparr>)
     = device_log dev st @ [c, Input_sync dev]"
  by (simp add: device_log_append written_to_def)

lemma joystick_event_cases:
  "joystick_event type code v st = st
   \<or> (\<exists>c. report_on (virtual_mouse st) c
        \<and> joystick_event type code v st =
            st\<lparr>trace := trace st @ [c, Input_sync (virtual_mouse st)]\<rparr>)
   \<or> (\<exists>c. report_on (virtual_keyboard st) c
        \<and> joystick_event type code v st =
            st\<lparr>trace := trace st @ [c, Input_sync (virtual_keyboard st)]\<rparr>)"
proof -
  consider (abs) "type = EV_ABS" "code = ABS_X \<or> code = ABS_Y"
    | (abs_none) "type = EV_ABS" "code \<noteq> ABS_X" "code \<noteq> ABS_Y"
    | (tl) "type = EV_KEY" "code = BTN_TL"
    | (b) "type = EV_KEY" "code = BTN_B"
    | (x) "type = EV_KEY" "code = BTN_X"
    | (y) "type = EV_KEY" "code = BTN_Y"
    | (a) "type = EV_KEY" "code = BTN_A"
    | (key_none) "type = EV_KEY" "code \<notin> {BTN_TL, BTN_B, BTN_X, BTN_Y, BTN_A}"
    | (none) "type \<noteq> EV_ABS" "type \<noteq> EV_KEY"
    by blast
  then show ?thesis
  proof cases
    case abs
    have "report_on (virtual_mouse st)
       (Input_report_rel (virtual_mouse st) (if code = ABS_X then REL_X else REL_Y)
           (c_div ((v - 128) * sensitivity st) 32))" by simp
    then show ?thesis using joystick_event_abs [OF abs(2), of v st] abs(1) by blast
  next
    case abs_none
    then show ?thesis by (simp add: abs_other)
  next
    case tl
    have "report_on (virtual_mouse st) (Input_report_key (virtual_mouse st) BTN_LEFT v)" by simp
    then show ?thesis using key_TL [of v st] tl by blast
  next
    case b
    have "report_on (virtual_keyboard st) (Input_report_key (virtual_keyboard st) KEY_B v)" by simp
    then show ?thesis using key_B [of v st] b by blast
  next
    case x
    have "report_on (virtual_keyboard st) (Input_report_key (virtual_keyboard st) KEY_E v)" by simp
    then show ?thesis using key_X [of v st] x by blast
  next
    case y
    have "report_on (virtual_keyboard st) (Input_report_key (virtual_keyboard st) KEY_RIGHTBRACE v)" by simp
    then show ?thesis using key_Y [of v st] y by blast
  next
    case a
    have "report_on (virtual_keyboard st) (Input_report_key (virtual_keyboard st) KEY_LEFTBRACE v)" by simp
    then show ?thesis using key_A [of v st] a by blast
  next
    case key_none
    then show ?thesis by (simp only: key_other simp_thms)
  next
    case none
    then show ?thesis by (simp add: type_other)
  qed
qed

lemma sint_neg_exact:
  fixes p :: c_int
  assumes "sint p \<noteq> - (2 ^ 31)"
  shows "sint (- p) = - sint p"
proof -
  have "- (2 ^ 31) \<le> sint p" "sint p < 2 ^ 31"
    using sint_ge [of p] sint_lt [of p] by simp_all
  with assms have "- (2 ^ 31) \<le> - sint p \<and> - sint p < 2 ^ 31" by simp
  then show ?thesis
    by (simp add: sint_word_minus signed_take_bit_int_eq_self)
qed

lemma sdiv_minus_left: "(- k) sdiv 32 = - (k sdiv (32::int))"
  by (simp add: signed_divide_int_def sgn_if)

lemma c_div_neg:
  assumes "sint p \<noteq> - (2 ^ 31)"
  shows "c_div (- p) 32 = - c_div p 32"
  by (simp add: c_div_def sint_neg_exact [OF assms] sdiv_minus_left)

lemma sdiv32_small:
  fixes k :: int
  assumes "- (2 ^ 31) \<le> k" "k < 2 ^ 31"
  shows "- (2 ^ 26) \<le> k sdiv 32 \<and> k sdiv 32 \<le> 2 ^ 26"
  using assms by (auto simp: signed_divide_int_def sgn_if)

lemma sint_neg_c_div: "sint (- c_div p 32) = - sint (c_div p 32)"
proof -
  have "- (2 ^ 31) \<le> sint p" "sint p < 2 ^ 31"
    using sint_ge [of p] sint_lt [of p] by simp_all
  from sdiv32_small [OF this] have "sint (c_div p 32) \<noteq> - (2 ^ 31)"
    by (simp add: sint_c_div_32)
  then show ?thesis by (rule sint_neg_exact)
qed

lemma abs_X: "joystick_event EV_ABS ABS_X v st =
     st\<lparr>trace := trace st @
        [Input_report_rel (virtual_mouse st) REL_X (c_div ((v - 128) * sensitivity st) 32),
         Input_sync (virtual_mouse st)]\<rparr>"
  using joystick_event_abs [of ABS_X v st] by simp

lemma abs_Y: "joystick_event EV_ABS ABS_Y v st =
     st\<lparr>trace := trace st @
        [Input_report_rel (virtual_mouse st) REL_Y (c_div ((v - 128) * sensitivity st) 32),
         Input_sync (virtual_mouse st)]\<rparr>"
  using joystick_event_abs [of ABS_Y v st] by (simp add: ABS_X_def ABS_Y_def)

lemma c_div_zero: "c_div 0 32 = 0"
  by (simp add: c_div_def)

lemma c_div_examples:
  "c_div ((143 - 128) * 5) 32 = 2"
  "c_div ((143 - 128) * - 5) 32 = - 2"
  "c_div ((- 2147483520 - 128) * 1) 32 = - 67108864"
  "c_div ((- 2147483520 - 128) * - 1) 32 = - 67108864"
  by (simp_all add: c_div_def signed_divide_int_def)

section \<open>The paths through the lifecycle functions\<close>

lemmas connect_labels = err_free_handle_def err_unregister_handle_def

lemma connect_reject_id:
  "joystick_id st \<noteq> - 1 \<Longrightarrow> ucast (id_product dev) \<noteq> joystick_id st \<Longrightarrow>
   joystick_connect handler dev env st = (- ENODEV, st)"
  by (simp add: joystick_connect_def)

lemma connect_reject_caps:
  "\<not> (test_bit ABS_X (absbit dev) \<and> test_bit ABS_Y (absbit dev)) \<Longrightarrow>
   joystick_connect handler dev env st = (- ENODEV, st)"
  by (simp add: joystick_connect_def)

lemma connect_not_accepted:
  "\<not> accepts st dev \<Longrightarrow> joystick_connect handler dev env st = (- ENODEV, st)"
  by (auto simp: accepts_def connect_reject_id connect_reject_caps)

lemma connect_nomem:
  "accepts st dev \<Longrightarrow> \<not> kzalloc_ok env \<Longrightarrow>
   joystick_connect handler dev env st = (- ENOMEM, st\<lparr>trace := trace st @ [Kzalloc None]\<rparr>)"
  by (auto simp add: joystick_connect_def accepts_def kzalloc_def called_def)

lemma connect_register_failed:
  "accepts st dev \<Longrightarrow> kzalloc_ok env \<Longrightarrow> register_handle_ret env \<noteq> 0 \<Longrightarrow>
   joystick_connect handler dev env st =
     (register_handle_ret env,
      st\<lparr>next_addr := Suc (next_addr st),
         handles := (handles st)(next_addr st := None),
         trace := trace st @
           [Kzalloc (Some (next_addr st)),
            Input_register_handle (Some (next_addr st)) (register_handle_ret env),
            Kfree (Some (next_addr st))]\<rparr>)"
  by (auto simp add: joystick_connect_def accepts_def host_defs connect_labels Let_def)

lemma connect_open_failed:
  "accepts st dev \<Longrightarrow> kzalloc_ok env \<Longrightarrow> register_handle_ret env = 0 \<Longrightarrow>
   open_device_ret env \<noteq> 0 \<Longrightarrow>
   joystick_connect handler dev env st =
     (open_device_ret env,
      st\<lparr>next_addr := Suc (next_addr st),
         handles := (handles st)(next_addr st := None),
         registered_handles := insert (next_addr st) (registered_handles st) - {next_addr st},
         trace := trace st @
           [Kzalloc (Some (next_addr st)),
            Input_register_handle (Some (next_addr st)) 0,
            Input_open_device (Some (next_addr st)) (open_device_ret env),
            Input_unregister_handle (Some (next_addr st)),
            Kfree (Some (next_addr st))]\<rparr>)"
  by (auto simp add: joystick_connect_def accepts_def host_defs connect_labels Let_def)

lemma connect_success:
  "accepts st dev \<Longrightarrow> kzalloc_ok env \<Longrightarrow> register_handle_ret env = 0 \<Longrightarrow>
   open_device_ret env = 0 \<Longrightarrow>
   joystick_connect handler dev env st =
     (0,
      st\<lparr>joystick_handle := Some (next_addr st),
         next_addr := Suc (next_addr st),
         handles := (handles st)(next_addr st \<mapsto>
            \<lparr>h_dev = Some dev, h_handler = Some handler, h_name = Some ''joystick_drawer''\<rparr>),
         registered_handles := insert (next_addr st) (registered_handles st),
         open_handles := insert (next_addr st) (open_handles st),
         trace := trace st @
           [Kzalloc (Some (next_addr st)),
            Input_register_handle (Some (next_addr st)) 0,
            Input_open_device (Some (next_addr st)) 0,
            Printk KERN_INFO (line (''joystick_drawer: Connected to '' @ dev_name dev))]\<rparr>)"
  by (auto simp add: joystick_connect_def accepts_def host_defs connect_labels Let_def zero_handle_def)

lemma errno_nonzero:
  "ENODEV \<noteq> 0" "ENOMEM \<noteq> 0" "- ENODEV \<noteq> 0" "- ENOMEM \<noteq> 0"
  "sint (- ENODEV) = - 19" "sint (- ENOMEM) = - 12"
  by (simp_all add: ENODEV_def ENOMEM_def)

lemma host_wf_fresh:
  assumes "host_wf st"
  shows "next_addr st \<notin> dom (devs st)" "next_addr st \<notin> registered_devs st"
    "next_addr st \<notin> dom (handles st)" "next_addr st \<notin> registered_handles st"
    "next_addr st \<notin> open_handles st"
  using assms by (auto simp: host_wf_def)

lemma map_upd_fresh: "p \<notin> dom m \<Longrightarrow> m(p := None) = m"
  by (auto simp: fun_eq_iff)

lemma one_axis_only:
  "\<not> (test_bit ABS_X (absbit (zero_dev\<lparr>absbit := set_bit ABS_X {}\<rparr>))
      \<and> test_bit ABS_Y (absbit (zero_dev\<lparr>absbit := set_bit ABS_X {}\<rparr>)))"
  by (simp add: test_bit_def set_bit_def ABS_X_def ABS_Y_def)

lemma joystick_dev_axes:
  "test_bit ABS_X (absbit (joystick_dev p n)) \<and> test_bit ABS_Y (absbit (joystick_dev p n))"
  by (simp add: joystick_dev_def test_bit_def set_bit_def)

lemma joystick_dev_fields:
  "id_product (joystick_dev p n) = p" "dev_name (joystick_dev p n) = n"
  by (simp_all add: joystick_dev_def)

lemma connect_result_cases:
  fixes st :: kstate and dev :: input_dev and env :: connect_env
  obtains (rejected) "\<not> accepts st dev"
  | (nomem) "accepts st dev" "\<not> kzalloc_ok env"
  | (reg_failed) "accepts st dev" "kzalloc_ok env" "register_handle_ret env \<noteq> 0"
  | (open_failed) "accepts st dev" "kzalloc_ok env" "register_handle_ret env = 0"
      "open_device_ret env \<noteq> 0"
  | (bound) "accepts st dev" "kzalloc_ok env" "register_handle_ret env = 0"
      "open_device_ret env = 0"
  by blast

lemma connect_failure_frame:
  assumes wf: "host_wf st" and c: "joystick_connect handler dev env st = (r, st')" and r: "r \<noteq> 0"
  shows "registered_handles st' = registered_handles st \<and> open_handles st' = open_handles st
         \<and> handles st' = handles st \<and> joystick_handle st' = joystick_handle st"
proof (cases rule: connect_result_cases [where st = st and dev = dev and env = env])
  case rejected
  then show ?thesis using c by (simp add: connect_not_accepted)
next
  case nomem
  then show ?thesis using c by (auto simp: connect_nomem)
next
  case reg_failed
  then show ?thesis using c host_wf_fresh [OF wf]
    by (auto simp: connect_register_failed map_upd_fresh)
next
  case open_failed
  then show ?thesis using c host_wf_fresh [OF wf]
    by (auto simp: connect_open_failed map_upd_fresh)
next
  case bound
  then show ?thesis using c r by (simp add: connect_success)
qed

lemma connect_zero_iff:
  assumes c: "joystick_connect handler dev env st = (r, st')"
  shows "r = 0 \<longleftrightarrow> accepts st dev \<and> kzalloc_ok env \<and> register_handle_ret env = 0
           \<and> open_device_ret env = 0"
proof (cases rule: connect_result_cases [where st = st and dev = dev and env = env])
  case rejected
  then show ?thesis using c by (auto simp: connect_not_accepted errno_nonzero)
next
  case nomem
  then show ?thesis using c by (auto simp: connect_nomem errno_nonzero)
next
  case reg_failed
  then show ?thesis using c by (auto simp: connect_register_failed)
next
  case open_failed
  then show ?thesis using c by (auto simp: connect_open_failed)
next
  case bound
  then show ?thesis using c by (simp add: connect_success)
qed

lemma host_wf_loaded: "host_wf loaded_state"
  by (auto simp: host_wf_def loaded_state_fields)

lemma accepts_loaded: "accepts loaded_state (joystick_dev p n)"
  by (simp add: accepts_def loaded_state_fields joystick_dev_axes)

lemma live_below_next: "host_wf st \<Longrightarrow> h \<in> live_bindings st \<Longrightarrow> h < next_addr st"
  by (simp add: host_wf_def live_bindings_def)

lemma finite_live: "host_wf st \<Longrightarrow> finite (live_bindings st)"
proof -
  assume "host_wf st"
  then have "live_bindings st \<subseteq> {..<next_addr st}"
    by (auto dest: live_below_next)
  then show ?thesis by (rule finite_subset) simp
qed

lemma connect_bound_step:
  assumes c: "joystick_connect handler dev env st = (r, st')" and r: "r = 0"
  shows "live_bindings st' = insert (next_addr st) (live_bindings st)"
    and "joystick_handle st' = Some (next_addr st)"
proof -
  from connect_zero_iff [OF c] r
  have a: "accepts st dev" "kzalloc_ok env" "register_handle_ret env = 0" "open_device_ret env = 0"
    by simp_all
  from c show "live_bindings st' = insert (next_addr st) (live_bindings st)"
    by (auto simp: connect_success [OF a] live_bindings_def)
  from c show "joystick_handle st' = Some (next_addr st)"
    by (auto simp: connect_success [OF a])
qed

lemma connect_failed_step:
  assumes "host_wf st" and "joystick_connect handler dev env st = (r, st')" and "r \<noteq> 0"
  shows "live_bindings st' = live_bindings st" and "joystick_handle st' = joystick_handle st"
  using connect_failure_frame [OF assms] by (simp_all add: live_bindings_def)

lemma host_wf_alt:
  "host_wf st \<longleftrightarrow>
     (\<forall>p d. devs st p = Some d \<longrightarrow> p < next_addr st)
     \<and> (\<forall>p \<in> registered_devs st. p < next_addr st)
     \<and> (\<forall>p r. handles st p = Some r \<longrightarrow> p < next_addr st)
     \<and> (\<forall>p \<in> registered_handles st. p < next_addr st)
     \<and> (\<forall>p \<in> open_handles st. p < next_addr st)"
  unfolding host_wf_def by (simp only: dom_def mem_Collect_eq) blast

lemma connect_preserves_wf:
  assumes wf: "host_wf st" and c: "joystick_connect handler dev env st = (r, st')"
  shows "host_wf st'"
proof (cases rule: connect_result_cases [where st = st and dev = dev and env = env])
  case rejected
  then show ?thesis using c wf by (simp add: connect_not_accepted)
next
  case nomem
  with c have "st' = st\<lparr>trace := trace st @ [Kzalloc None]\<rparr>"
    by (simp add: connect_nomem)
  then show ?thesis using wf by (simp add: host_wf_alt)
next
  case reg_failed
  from c have "snd (joystick_connect handler dev env st) = st'" by simp
  then show ?thesis using wf
    unfolding connect_register_failed [OF reg_failed]
    by (auto simp add: host_wf_alt less_Suc_eq split: if_splits)
next
  case open_failed
  from c have "snd (joystick_connect handler dev env st) = st'" by simp
  then show ?thesis using wf
    unfolding connect_open_failed [OF open_failed]
    by (auto simp add: host_wf_alt less_Suc_eq split: if_splits)
next
  case bound
  from c have "snd (joystick_connect handler dev env st) = st'" by simp
  then show ?thesis using wf
    unfolding connect_success [OF bound]
    by (auto simp add: host_wf_alt less_Suc_eq split: if_splits)
qed

lemma connect_ok_fields:
  "kzalloc_ok connect_ok" "register_handle_ret connect_ok = 0" "open_device_ret connect_ok = 0"
  by (simp_all add: connect_ok_def)

lemma connect_ok_success:
  "accepts st dev \<Longrightarrow>
   joystick_connect handler dev connect_ok st =
     (0,
      st\<lparr>joystick_handle := Some (next_addr st),
         next_addr := Suc (next_addr st),
         handles := (handles st)(next_addr st \<mapsto>
            \<lparr>h_dev = Some dev, h_handler = Some handler, h_name = Some ''joystick_drawer''\<rparr>),
         registered_handles := insert (next_addr st) (registered_handles st),
         open_handles := insert (next_addr st) (open_handles st),
         trace := trace st @
           [Kzalloc (Some (next_addr st)),
            Input_register_handle (Some (next_addr st)) 0,
            Input_open_device (Some (next_addr st)) 0,
            Printk KERN_INFO (line (''joystick_drawer: Connected to '' @ dev_name dev))]\<rparr>)"
  by (rule connect_success) (simp_all add: connect_ok_fields)

lemma two_pads_connected:
  "live_bindings (snd (joystick_connect ''joystick_drawer'' (joystick_dev 1 ''pad one'')
      connect_ok loaded_state)) = {3}"
  "fst (connect_all ''joystick_drawer''
        [(joystick_dev 1 ''pad one'', connect_ok), (joystick_dev 2 ''pad two'', connect_ok)]
        loaded_state) = [0, 0]"
  "live_bindings (snd (connect_all ''joystick_drawer''
        [(joystick_dev 1 ''pad one'', connect_ok), (joystick_dev 2 ''pad two'', connect_ok)]
        loaded_state)) = {3, 4}"
  "joystick_handle (snd (connect_all ''joystick_drawer''
        [(joystick_dev 1 ''pad one'', connect_ok), (joystick_dev 2 ''pad two'', connect_ok)]
        loaded_state)) = Some 4"
proof -
  define st1 where "st1 = snd (joystick_connect ''joystick_drawer'' (joystick_dev 1 ''pad one'')
      connect_ok loaded_state)"
  have one: "joystick_connect ''joystick_drawer'' (joystick_dev 1 ''pad one'') connect_ok loaded_state
      = (0, st1)"
    by (simp add: st1_def connect_ok_success accepts_loaded)
  have f1: "next_addr st1 = 4" "registered_handles st1 = {3}" "open_handles st1 = {3}"
    "joystick_id st1 = - 1"
    by (simp_all add: st1_def connect_ok_success accepts_loaded loaded_state_fields)
  have a2: "accepts st1 (joystick_dev 2 ''pad two'')"
    by (simp add: accepts_def f1 joystick_dev_axes)
  define st2 where
    "st2 = snd (joystick_connect ''joystick_drawer'' (joystick_dev 2 ''pad two'') connect_ok st1)"
  have two: "joystick_connect ''joystick_drawer'' (joystick_dev 2 ''pad two'') connect_ok st1
      = (0, st2)"
    by (simp add: st2_def connect_ok_success [OF a2])
  have f2: "registered_handles st2 = {3, 4}" "open_handles st2 = {3, 4}"
    "joystick_handle st2 = Some 4"
    by (auto simp add: st2_def connect_ok_success [OF a2] f1)
  have all: "connect_all ''joystick_drawer''
        [(joystick_dev 1 ''pad one'', connect_ok), (joystick_dev 2 ''pad two'', connect_ok)]
        loaded_state = ([0, 0], st2)"
    by (simp add: one two)
  show "live_bindings (snd (joystick_connect ''joystick_drawer'' (joystick_dev 1 ''pad one'')
      connect_ok loaded_state)) = {3}"
    unfolding one by (simp add: live_bindings_def f1)
  show "fst (connect_all ''joystick_drawer''
        [(joystick_dev 1 ''pad one'', connect_ok), (joystick_dev 2 ''pad two'', connect_ok)]
        loaded_state) = [0, 0]"
    unfolding all by simp
  show "live_bindings (snd (connect_all ''joystick_drawer''
        [(joystick_dev 1 ''pad one'', connect_ok), (joystick_dev 2 ''pad two'', connect_ok)]
        loaded_state)) = {3, 4}"
    unfolding all by (simp add: live_bindings_def f2)
  show "joystick_handle (snd (connect_all ''joystick_drawer''
        [(joystick_dev 1 ''pad one'', connect_ok), (joystick_dev 2 ''pad two'', connect_ok)]
        loaded_state)) = Some 4"
    unfolding all by (simp add: f2)
qed

lemma disconnect_live:
  "handles st h = Some r \<Longrightarrow> h_dev r = Some d \<Longrightarrow>
   joystick_disconnect h st =
     Some (st\<lparr>handles := (handles st)(h := None),
              registered_handles := registered_handles st - {h},
              open_handles := open_handles st - {h},
              trace := trace st @
                [Printk KERN_INFO (line (''joystick_drawer: Disconnected from '' @ dev_name d)),
                 Input_close_device (Some h), Input_unregister_handle (Some h),
                 Kfree (Some h)]\<rparr>)"
  by (simp add: joystick_disconnect_def host_defs)

lemma pad_bound:
  "fst (joystick_connect ''joystick_drawer'' (joystick_dev 1 ''pad'') connect_ok loaded_state) = 0"
  "joystick_handle (snd (joystick_connect ''joystick_drawer'' (joystick_dev 1 ''pad'') connect_ok
      loaded_state)) = Some 3"
  "handles (snd (joystick_connect ''joystick_drawer'' (joystick_dev 1 ''pad'') connect_ok
      loaded_state)) 3 =
     Some \<lparr>h_dev = Some (joystick_dev 1 ''pad''), h_handler = Some ''joystick_drawer'',
           h_name = Some ''joystick_drawer''\<rparr>"
  "live_bindings (snd (joystick_connect ''joystick_drawer'' (joystick_dev 1 ''pad'') connect_ok
      loaded_state)) = {3}"
  "joystick_id (snd (joystick_connect ''joystick_drawer'' (joystick_dev 1 ''pad'') connect_ok
      loaded_state)) = - 1"
  by (simp_all add: connect_ok_success accepts_loaded loaded_state_fields live_bindings_def)

lemmas create_labels = err_free_mouse_def err_unregister_mouse_def err_free_keyboard_def

lemma create_mouse_nomem:
  assumes "\<not> alloc_mouse_ok env"
  shows "create_virtual_devices env st =
     (- ENOMEM,
      st\<lparr>virtual_mouse := None,
         trace := trace st @
           [Input_allocate_device None,
            Printk KERN_ERR (line ''joystick_drawer: Not enough memory for virtual mouse'')]\<rparr>)"
  using assms by (simp add: create_virtual_devices_def host_defs)

lemma create_mouse_unregistered:
  assumes "alloc_mouse_ok env" "register_mouse_ret env \<noteq> 0"
  shows "fst (create_virtual_devices env st) = register_mouse_ret env"
    "registered_devs (snd (create_virtual_devices env st)) = registered_devs st"
    "devs (snd (create_virtual_devices env st)) = (devs st)(next_addr st := None)"
    "trace (snd (create_virtual_devices env st)) = trace st @
       [Input_allocate_device (Some (next_addr st)),
        Input_register_device (Some (next_addr st)) (register_mouse_ret env),
        Printk KERN_ERR (line ''joystick_drawer: Failed to register virtual mouse''),
        Input_free_device (Some (next_addr st))]"
  using assms by (simp_all add: create_virtual_devices_def host_defs create_labels Let_def)

lemma create_keyboard_nomem:
  assumes "alloc_mouse_ok env" "register_mouse_ret env = 0" "\<not> alloc_keyboard_ok env"
  shows "fst (create_virtual_devices env st) = - ENOMEM"
    "registered_devs (snd (create_virtual_devices env st)) = registered_devs st - {next_addr st}"
    "devs (snd (create_virtual_devices env st)) = (devs st)(next_addr st := None)"
    "virtual_mouse (snd (create_virtual_devices env st)) = None"
    "trace (snd (create_virtual_devices env st)) = trace st @
       [Input_allocate_device (Some (next_addr st)),
        Input_register_device (Some (next_addr st)) 0,
        Input_allocate_device None,
        Printk KERN_ERR (line ''joystick_drawer: Not enough memory for virtual keyboard''),
        Input_unregister_device (Some (next_addr st))]"
  using assms by (simp_all add: create_virtual_devices_def host_defs create_labels Let_def)

lemma create_keyboard_unregistered:
  assumes "alloc_mouse_ok env" "register_mouse_ret env = 0" "alloc_keyboard_ok env"
    "register_keyboard_ret env \<noteq> 0"
  shows "fst (create_virtual_devices env st) = register_keyboard_ret env"
    "registered_devs (snd (create_virtual_devices env st)) = registered_devs st - {next_addr st}"
    "devs (snd (create_virtual_devices env st)) =
       (devs st)(Suc (next_addr st) := None, next_addr st := None)"
    "virtual_mouse (snd (create_virtual_devices env st)) = None"
    "trace (snd (create_virtual_devices env st)) = trace st @
       [Input_allocate_device (Some (next_addr st)),
        Input_register_device (Some (next_addr st)) 0,
        Input_allocate_device (Some (Suc (next_addr st))),
        Input_register_device (Some (Suc (next_addr st))) (register_keyboard_ret env),
        Printk KERN_ERR (line ''joystick_drawer: Failed to register virtual keyboard''),
        Input_free_device (Some (Suc (next_addr st))),
        Input_unregister_device (Some (next_addr st))]"
  using assms by (simp_all add: create_virtual_devices_def host_defs create_labels Let_def)

lemma create_both_registered:
  assumes "alloc_mouse_ok env" "register_mouse_ret env = 0" "alloc_keyboard_ok env"
    "register_keyboard_ret env = 0"
  shows "fst (create_virtual_devices env st) = 0"
    "registered_devs (snd (create_virtual_devices env st)) =
       insert (Suc (next_addr st)) (insert (next_addr st) (registered_devs st))"
    "devs (snd (create_virtual_devices env st)) =
       (devs st)(next_addr st \<mapsto> setup_mouse zero_dev,
                 Suc (next_addr st) \<mapsto> setup_keyboard zero_dev)"
    "virtual_mouse (snd (create_virtual_devices env st)) = Some (next_addr st)"
    "virtual_keyboard (snd (create_virtual_devices env st)) = Some (Suc (next_addr st))"
    "trace (snd (create_virtual_devices env st)) = trace st @
       [Input_allocate_device (Some (next_addr st)),
        Input_register_device (Some (next_addr st)) 0,
        Input_allocate_device (Some (Suc (next_addr st))),
        Input_register_device (Some (Suc (next_addr st))) 0]"
  using assms by (simp_all add: create_virtual_devices_def host_defs create_labels Let_def)

lemma create_result_cases:
  fixes env :: create_env
  obtains (mouse_nomem) "\<not> alloc_mouse_ok env"
  | (mouse_unregistered) "alloc_mouse_ok env" "register_mouse_ret env \<noteq> 0"
  | (keyboard_nomem) "alloc_mouse_ok env" "register_mouse_ret env = 0" "\<not> alloc_keyboard_ok env"
  | (keyboard_unregistered) "alloc_mouse_ok env" "register_mouse_ret env = 0"
      "alloc_keyboard_ok env" "register_keyboard_ret env \<noteq> 0"
  | (both) "alloc_mouse_ok env" "register_mouse_ret env = 0"
      "alloc_keyboard_ok env" "register_keyboard_ret env = 0"
  by blast

lemma minus_fresh: "p \<notin> A \<Longrightarrow> A - {p} = A"
  by blast

lemma host_wf_initial: "host_wf initial_state"
  by (simp add: host_wf_def initial_state_def)

lemma initial_state_fields:
  "registered_devs initial_state = {}" "devs initial_state = Map.empty"
  "next_addr initial_state = 1"
  by (simp_all add: initial_state_def)

section \<open>The event translator: axes\<close>

text \<open>
  C1. An absolute-axis event on \<open>ABS_X\<close> (\<open>ABS_Y\<close>) with raw value \<open>v\<close> makes the
  translator report one relative motion \<open>r\<close> on \<open>REL_X\<close> (\<open>REL_Y\<close>) of the pointer device
  and then flush that device, and nothing else. \<open>r\<close> is the C value of
  \<open>(v - 128) * sensitivity / 32\<close>: the quotient, truncated toward zero, of the \<open>int\<close>
  product by 32; wherever the subtraction and the product stay inside \<open>int\<close>, that is the
  truncated quotient of the mathematical product. With \<open>sensitivity = 5\<close>, the raw values
  128, 160, 96 and 143 give 0, 5, -5 and 2.
\<close>

theorem joystick_event_axis:
  assumes "code = ABS_X \<or> code = ABS_Y"
  shows "\<exists>r. joystick_event EV_ABS code v st =
            st\<lparr>trace := trace st @
              [Input_report_rel (virtual_mouse st) (if code = ABS_X then REL_X else REL_Y) r,
               Input_sync (virtual_mouse st)]\<rparr>
          \<and> sint r = sint ((v - 128) * sensitivity st) sdiv 32
          \<and> sint r = (if 0 \<le> sint ((v - 128) * sensitivity st)
                       then sint ((v - 128) * sensitivity st) div 32
                       else - ((- sint ((v - 128) * sensitivity st)) div 32))
          \<and> (- (2 ^ 31) \<le> sint v - 128
               \<and> - (2 ^ 31) \<le> (sint v - 128) * sint (sensitivity st)
               \<and> (sint v - 128) * sint (sensitivity st) < 2 ^ 31
              \<longrightarrow> sint r = ((sint v - 128) * sint (sensitivity st)) sdiv 32)
          \<and> (sensitivity st = 5 \<longrightarrow>
                (v = 128 \<longrightarrow> r = 0) \<and> (v = 160 \<longrightarrow> r = 5)
              \<and> (v = 96 \<longrightarrow> r = - 5) \<and> (v = 143 \<longrightarrow> r = 2))"
proof -
  let ?r = "c_div ((v - 128) * sensitivity st) 32"
  have ex: "sensitivity st = 5 \<longrightarrow>
                (v = 128 \<longrightarrow> ?r = 0) \<and> (v = 160 \<longrightarrow> ?r = 5)
              \<and> (v = 96 \<longrightarrow> ?r = - 5) \<and> (v = 143 \<longrightarrow> ?r = 2)"
    by (simp add: c_div_def signed_divide_int_def)
  show ?thesis
    apply (rule exI [of _ ?r])
    using joystick_event_abs [OF assms, of v st] ex
      sdiv32_truncates [of "sint ((v - 128) * sensitivity st)"]
    by (simp add: sint_c_div_32 sint_scaled_exact)
qed

theorem joystick_event_axis_witness:
  "(ABS_X = ABS_X \<or> ABS_X = ABS_Y)
   \<and> sensitivity loaded_state = 5
   \<and> joystick_event EV_ABS ABS_X 143 loaded_state =
       loaded_state\<lparr>trace := trace loaded_state @
          [Input_report_rel (Some 1) REL_X 2, Input_sync (Some 1)]\<rparr>"
  using joystick_event_axis [of ABS_X 143 loaded_state]
  by (auto simp add: loaded_state_fields)

section \<open>The event translator: buttons\<close>

text \<open>
  C2. A button event is translated for exactly five codes: \<open>BTN_TL\<close> reports
  \<open>BTN_LEFT = value\<close> on the pointer device; \<open>BTN_B\<close>, \<open>BTN_X\<close>, \<open>BTN_Y\<close> and \<open>BTN_A\<close>
  report \<open>KEY_B\<close>, \<open>KEY_E\<close>, \<open>KEY_RIGHTBRACE\<close> and \<open>KEY_LEFTBRACE = value\<close> on the
  key-emitter device; each report is followed by a flush of the same device. Every other
  button code, and every event type other than \<open>EV_ABS\<close> and \<open>EV_KEY\<close>, leaves the state
  as it was: no call is made.
\<close>

theorem joystick_event_buttons:
  "(code = BTN_TL \<longrightarrow>
      joystick_event EV_KEY code v st =
        st\<lparr>trace := trace st @ [Input_report_key (virtual_mouse st) BTN_LEFT v,
                                  Input_sync (virtual_mouse st)]\<rparr>)
   \<and> (code = BTN_B \<longrightarrow>
      joystick_event EV_KEY code v st =
        st\<lparr>trace := trace st @ [Input_report_key (virtual_keyboard st) KEY_B v,
                                  Input_sync (virtual_keyboard st)]\<rparr>)
   \<and> (code = BTN_X \<longrightarrow>
      joystick_event EV_KEY code v st =
        st\<lparr>trace := trace st @ [Input_report_key (virtual_keyboard st) KEY_E v,
                                  Input_sync (virtual_keyboard st)]\<rparr>)
   \<and> (code = BTN_Y \<longrightarrow>
      joystick_event EV_KEY code v st =
        st\<lparr>trace := trace st @ [Input_report_key (virtual_keyboard st) KEY_RIGHTBRACE v,
                                  Input_sync (virtual_keyboard st)]\<rparr>)
   \<and> (code = BTN_A \<longrightarrow>
      joystick_event EV_KEY code v st =
        st\<lparr>trace := trace st @ [Input_report_key (virtual_keyboard st) KEY_LEFTBRACE v,
                                  Input_sync (virtual_keyboard st)]\<rparr>)
   \<and> (code \<notin> {BTN_TL, BTN_B, BTN_X, BTN_Y, BTN_A} \<longrightarrow> joystick_event EV_KEY code v st = st)
   \<and> (type \<noteq> EV_ABS \<and> type \<noteq> EV_KEY \<longrightarrow> joystick_event type code v st = st)"
proof (intro conjI impI)
  assume "code = BTN_TL"
  then show "joystick_event EV_KEY code v st =
        st\<lparr>trace := trace st @ [Input_report_key (virtual_mouse st) BTN_LEFT v,
                                  Input_sync (virtual_mouse st)]\<rparr>"
    by (simp only: key_TL)
next
  assume "code = BTN_B"
  then show "joystick_event EV_KEY code v st =
        st\<lparr>trace := trace st @ [Input_report_key (virtual_keyboard st) KEY_B v,
                                  Input_sync (virtual_keyboard st)]\<rparr>"
    by (simp only: key_B)
next
  assume "code = BTN_X"
  then show "joystick_event EV_KEY code v st =
        st\<lparr>trace := trace st @ [Input_report_key (virtual_keyboard st) KEY_E v,
                                  Input_sync (virtual_keyboard st)]\<rparr>"
    by (simp only: key_X)
next
  assume "code = BTN_Y"
  then show "joystick_event EV_KEY code v st =
        st\<lparr>trace := trace st @ [Input_report_key (virtual_keyboard st) KEY_RIGHTBRACE v,
                                  Input_sync (virtual_keyboard st)]\<rparr>"
    by (simp only: key_Y)
next
  assume "code = BTN_A"
  then show "joystick_event EV_KEY code v st =
        st\<lparr>trace := trace st @ [Input_report_key (virtual_keyboard st) KEY_LEFTBRACE v,
                                  Input_sync (virtual_keyboard st)]\<rparr>"
    by (simp only: key_A)
next
  assume "code \<notin> {BTN_TL, BTN_B, BTN_X, BTN_Y, BTN_A}"
  then show "joystick_event EV_KEY code v st = st" by (rule key_other)
next
  assume "type \<noteq> EV_ABS \<and> type \<noteq> EV_KEY"
  then show "joystick_event type code v st = st" by (simp add: type_other)
qed

theorem joystick_event_buttons_witness:
  "joystick_event EV_KEY BTN_TL 1 loaded_state =
     loaded_state\<lparr>trace := trace loaded_state @
        [Input_report_key (Some 1) BTN_LEFT 1, Input_sync (Some 1)]\<rparr>
   \<and> joystick_event EV_KEY BTN_B 1 loaded_state =
     loaded_state\<lparr>trace := trace loaded_state @
        [Input_report_key (Some 2) KEY_B 1, Input_sync (Some 2)]\<rparr>
   \<and> joystick_event EV_KEY BTN_X 0 loaded_state =
     loaded_state\<lparr>trace := trace loaded_state @
        [Input_report_key (Some 2) KEY_E 0, Input_sync (Some 2)]\<rparr>
   \<and> joystick_event EV_KEY BTN_Y 1 loaded_state =
     loaded_state\<lparr>trace := trace loaded_state @
        [Input_report_key (Some 2) KEY_RIGHTBRACE 1, Input_sync (Some 2)]\<rparr>
   \<and> joystick_event EV_KEY BTN_A 1 loaded_state =
     loaded_state\<lparr>trace := trace loaded_state @
        [Input_report_key (Some 2) KEY_LEFTBRACE 1, Input_sync (Some 2)]\<rparr>
   \<and> BTN_RIGHT \<notin> {BTN_TL, BTN_B, BTN_X, BTN_Y, BTN_A}
   \<and> joystick_event EV_KEY BTN_RIGHT 1 loaded_state = loaded_state
   \<and> EV_REL \<noteq> EV_ABS \<and> EV_REL \<noteq> EV_KEY
   \<and> joystick_event EV_REL REL_X 7 loaded_state = loaded_state"
proof -
  have a: "joystick_event EV_KEY BTN_TL 1 loaded_state =
     loaded_state\<lparr>trace := trace loaded_state @
        [Input_report_key (Some 1) BTN_LEFT 1, Input_sync (Some 1)]\<rparr>"
    using joystick_event_buttons [of BTN_TL 1 loaded_state] by (simp add: loaded_state_fields)
  have b: "joystick_event EV_KEY BTN_B 1 loaded_state =
     loaded_state\<lparr>trace := trace loaded_state @
        [Input_report_key (Some 2) KEY_B 1, Input_sync (Some 2)]\<rparr>"
    using joystick_event_buttons [of BTN_B 1 loaded_state] by (simp add: loaded_state_fields)
  have c: "joystick_event EV_KEY BTN_X 0 loaded_state =
     loaded_state\<lparr>trace := trace loaded_state @
        [Input_report_key (Some 2) KEY_E 0, Input_sync (Some 2)]\<rparr>"
    using joystick_event_buttons [of BTN_X 0 loaded_state] by (simp add: loaded_state_fields)
  have d: "joystick_event EV_KEY BTN_Y 1 loaded_state =
     loaded_state\<lparr>trace := trace loaded_state @
        [Input_report_key (Some 2) KEY_RIGHTBRACE 1, Input_sync (Some 2)]\<rparr>"
    using joystick_event_buttons [of BTN_Y 1 loaded_state] by (simp add: loaded_state_fields)
  have e: "joystick_event EV_KEY BTN_A 1 loaded_state =
     loaded_state\<lparr>trace := trace loaded_state @
        [Input_report_key (Some 2) KEY_LEFTBRACE 1, Input_sync (Some 2)]\<rparr>"
    using joystick_event_buttons [of BTN_A 1 loaded_state] by (simp add: loaded_state_fields)
  have f: "joystick_event EV_KEY BTN_RIGHT 1 loaded_state = loaded_state"
    using joystick_event_buttons [of BTN_RIGHT 1 loaded_state] not_mapped by blast
  have g: "joystick_event EV_REL REL_X 7 loaded_state = loaded_state"
    using joystick_event_buttons [of REL_X 7 loaded_state EV_REL] rel_not_handled by blast
  show ?thesis using a b c d e f g not_mapped rel_not_handled by blast
qed

section \<open>The event translator: one device per event\<close>

text \<open>
  C10. One input event makes the translator write to at most one output device. Either
  the state is unchanged, or exactly two calls are added: one report (\<open>input_report_rel\<close>
  or \<open>input_report_key\<close>) on a device that is the pointer or the key-emitter, followed by one
  \<open>input_sync\<close> on the same device; these two calls are what that device receives, and
  every other device receives nothing.
\<close>

theorem joystick_event_one_device:
  "joystick_event type code v st = st
   \<or> (\<exists>dev c. (dev = virtual_mouse st \<or> dev = virtual_keyboard st)
        \<and> report_on dev c
        \<and> joystick_event type code v st = st\<lparr>trace := trace st @ [c, Input_sync dev]\<rparr>
        \<and> device_log dev (joystick_event type code v st) = device_log dev st @ [c, Input_sync dev]
        \<and> (\<forall>other. other \<noteq> dev \<longrightarrow>
              device_log other (joystick_event type code v st) = device_log other st))"
proof -
  from joystick_event_cases [of type code v st] show ?thesis
  proof (elim disjE exE conjE)
    assume "joystick_event type code v st = st"
    then show ?thesis by simp
  next
    fix c
    assume c: "report_on (virtual_mouse st) c"
      and e: "joystick_event type code v st =
            st\<lparr>trace := trace st @ [c, Input_sync (virtual_mouse st)]\<rparr>"
    have "(virtual_mouse st = virtual_mouse st \<or> virtual_mouse st = virtual_keyboard st)
        \<and> report_on (virtual_mouse st) c
        \<and> joystick_event type code v st = st\<lparr>trace := trace st @ [c, Input_sync (virtual_mouse st)]\<rparr>
        \<and> device_log (virtual_mouse st) (joystick_event type code v st)
            = device_log (virtual_mouse st) st @ [c, Input_sync (virtual_mouse st)]
        \<and> (\<forall>other. other \<noteq> virtual_mouse st \<longrightarrow>
              device_log other (joystick_event type code v st) = device_log other st)"
      using c e by (simp add: device_log_other device_log_own)
    then show ?thesis by blast
  next
    fix c
    assume c: "report_on (virtual_keyboard st) c"
      and e: "joystick_event type code v st =
            st\<lparr>trace := trace st @ [c, Input_sync (virtual_keyboard st)]\<rparr>"
    have "(virtual_keyboard st = virtual_mouse st \<or> virtual_keyboard st = virtual_keyboard st)
        \<and> report_on (virtual_keyboard st) c
        \<and> joystick_event type code v st = st\<lparr>trace := trace st @ [c, Input_sync (virtual_keyboard st)]\<rparr>
        \<and> device_log (virtual_keyboard st) (joystick_event type code v st)
            = device_log (virtual_keyboard st) st @ [c, Input_sync (virtual_keyboard st)]
        \<and> (\<forall>other. other \<noteq> virtual_keyboard st \<longrightarrow>
              device_log other (joystick_event type code v st) = device_log other st)"
      using c e by (simp add: device_log_other device_log_own)
    then show ?thesis by blast
  qed
qed

theorem joystick_event_one_device_witness:
  "joystick_event EV_KEY BTN_B 1 loaded_state \<noteq> loaded_state
   \<and> device_log (Some 2) (joystick_event EV_KEY BTN_B 1 loaded_state) =
       device_log (Some 2) loaded_state @ [Input_report_key (Some 2) KEY_B 1, Input_sync (Some 2)]
   \<and> Some 1 \<noteq> Some (2::nat)
   \<and> device_log (Some 1) (joystick_event EV_KEY BTN_B 1 loaded_state) = device_log (Some 1) loaded_state"
proof -
  have ev: "joystick_event EV_KEY BTN_B 1 loaded_state =
     loaded_state\<lparr>trace := trace loaded_state @
        [Input_report_key (Some 2) KEY_B 1, Input_sync (Some 2)]\<rparr>"
    by (simp add: key_B loaded_state_fields)
  have ne: "joystick_event EV_KEY BTN_B 1 loaded_state \<noteq> loaded_state"
  proof
    assume "joystick_event EV_KEY BTN_B 1 loaded_state = loaded_state"
    then have "trace (joystick_event EV_KEY BTN_B 1 loaded_state) = trace loaded_state" by simp
    then show False by (simp add: ev)
  qed
  from joystick_event_one_device [of EV_KEY BTN_B 1 loaded_state] ne
  obtain dev c where d: "report_on dev c"
    "joystick_event EV_KEY BTN_B 1 loaded_state = loaded_state\<lparr>trace := trace loaded_state @ [c, Input_sync dev]\<rparr>"
    "device_log dev (joystick_event EV_KEY BTN_B 1 loaded_state) = device_log dev loaded_state @ [c, Input_sync dev]"
    "\<forall>other. other \<noteq> dev \<longrightarrow>
              device_log other (joystick_event EV_KEY BTN_B 1 loaded_state) = device_log other loaded_state"
    by blast
  from d(2) have "trace (loaded_state\<lparr>trace := trace loaded_state @ [c, Input_sync dev]\<rparr>)
     = trace (loaded_state\<lparr>trace := trace loaded_state @
        [Input_report_key (Some 2) KEY_B 1, Input_sync (Some 2)]\<rparr>)"
    by (simp only: ev)
  then have cd: "c = Input_report_key (Some 2) KEY_B 1" "dev = Some 2" by simp_all
  show ?thesis using ne d(3,4) cd by simp
qed

section \<open>The event translator: sensitivity outside its documented range\<close>

text \<open>
  C9, as stated, for every raw value: with sensitivity \<open>-s\<close> the motion is the negation of
  the motion with sensitivity \<open>s\<close>. It fails where the \<open>int\<close> product \<open>(v - 128) * s\<close> is
  \<open>INT_MIN\<close>: for \<open>v = -2147483520\<close>, sensitivity 1 gives the product \<open>INT_MIN\<close> and the motion
  \<open>-67108864\<close>, and sensitivity -1 wraps to the same product and the same motion.
\<close>

theorem negation_counterexample:
  "trace (joystick_event EV_ABS ABS_X (- 2147483520) (loaded_state\<lparr>sensitivity := 1\<rparr>)) =
     trace loaded_state @ [Input_report_rel (Some 1) REL_X (- 67108864), Input_sync (Some 1)]
   \<and> trace (joystick_event EV_ABS ABS_X (- 2147483520) (loaded_state\<lparr>sensitivity := - 1\<rparr>)) =
     trace loaded_state @ [Input_report_rel (Some 1) REL_X (- 67108864), Input_sync (Some 1)]
   \<and> sint (- 67108864 :: c_int) = - 67108864
   \<and> (- 67108864 :: c_int) \<noteq> - (- 67108864)"
  using c_div_examples(3,4)
  by (simp add: abs_X loaded_state_fields)

text \<open>
  C9, amended. The sensitivity is used as it is, whatever its value. With sensitivity 0
  an axis event reports the motion 0 for every raw value. For every raw value \<open>v\<close> and
  sensitivity \<open>s\<close> whose \<open>int\<close> product \<open>(v - 128) * s\<close> is not \<open>INT_MIN\<close>, the motion
  reported with sensitivity \<open>-s\<close> is the exact negation of the motion reported with
  sensitivity \<open>s\<close>.
\<close>

theorem sensitivity_not_validated:
  assumes "code = ABS_X \<or> code = ABS_Y"
  shows "joystick_event EV_ABS code v (st\<lparr>sensitivity := 0\<rparr>) =
           st\<lparr>sensitivity := 0, trace := trace st @
              [Input_report_rel (virtual_mouse st) (if code = ABS_X then REL_X else REL_Y) 0,
               Input_sync (virtual_mouse st)]\<rparr>
         \<and> (sint ((v - 128) * s) \<noteq> - (2 ^ 31) \<longrightarrow>
              (\<exists>r. joystick_event EV_ABS code v (st\<lparr>sensitivity := s\<rparr>) =
                      st\<lparr>sensitivity := s, trace := trace st @
                        [Input_report_rel (virtual_mouse st)
                           (if code = ABS_X then REL_X else REL_Y) r,
                         Input_sync (virtual_mouse st)]\<rparr>
                  \<and> joystick_event EV_ABS code v (st\<lparr>sensitivity := - s\<rparr>) =
                      st\<lparr>sensitivity := - s, trace := trace st @
                        [Input_report_rel (virtual_mouse st)
                           (if code = ABS_X then REL_X else REL_Y) (- r),
                         Input_sync (virtual_mouse st)]\<rparr>
                  \<and> sint (- r) = - sint r))"
proof (intro conjI impI)
  show "joystick_event EV_ABS code v (st\<lparr>sensitivity := 0\<rparr>) =
           st\<lparr>sensitivity := 0, trace := trace st @
              [Input_report_rel (virtual_mouse st) (if code = ABS_X then REL_X else REL_Y) 0,
               Input_sync (virtual_mouse st)]\<rparr>"
    using joystick_event_abs [OF assms, of v "st\<lparr>sensitivity := 0\<rparr>"]
    by (simp add: c_div_zero)
next
  assume p: "sint ((v - 128) * s) \<noteq> - (2 ^ 31)"
  let ?r = "c_div ((v - 128) * s) 32"
  have n: "c_div (- ((v - 128) * s)) 32 = - ?r"
    using p by (rule c_div_neg)
  have "joystick_event EV_ABS code v (st\<lparr>sensitivity := s\<rparr>) =
                      st\<lparr>sensitivity := s, trace := trace st @
                        [Input_report_rel (virtual_mouse st)
                           (if code = ABS_X then REL_X else REL_Y) ?r,
                         Input_sync (virtual_mouse st)]\<rparr>
                  \<and> joystick_event EV_ABS code v (st\<lparr>sensitivity := - s\<rparr>) =
                      st\<lparr>sensitivity := - s, trace := trace st @
                        [Input_report_rel (virtual_mouse st)
                           (if code = ABS_X then REL_X else REL_Y) (- ?r),
                         Input_sync (virtual_mouse st)]\<rparr>
                  \<and> sint (- ?r) = - sint ?r"
    using joystick_event_abs [OF assms, of v "st\<lparr>sensitivity := s\<rparr>"]
      joystick_event_abs [OF assms, of v "st\<lparr>sensitivity := - s\<rparr>"]
    by (simp add: n sint_neg_c_div)
  then show "\<exists>r. joystick_event EV_ABS code v (st\<lparr>sensitivity := s\<rparr>) =
                      st\<lparr>sensitivity := s, trace := trace st @
                        [Input_report_rel (virtual_mouse st)
                           (if code = ABS_X then REL_X else REL_Y) r,
                         Input_sync (virtual_mouse st)]\<rparr>
                  \<and> joystick_event EV_ABS code v (st\<lparr>sensitivity := - s\<rparr>) =
                      st\<lparr>sensitivity := - s, trace := trace st @
                        [Input_report_rel (virtual_mouse st)
                           (if code = ABS_X then REL_X else REL_Y) (- r),
                         Input_sync (virtual_mouse st)]\<rparr>
                  \<and> sint (- r) = - sint r"
    by (rule exI)
qed

theorem sensitivity_not_validated_witness:
  "(ABS_Y = ABS_X \<or> ABS_Y = ABS_Y)
   \<and> sint ((143 - 128) * 5 :: c_int) \<noteq> - (2 ^ 31)
   \<and> joystick_event EV_ABS ABS_Y 143 (loaded_state\<lparr>sensitivity := 0\<rparr>) =
       loaded_state\<lparr>sensitivity := 0, trace := trace loaded_state @
          [Input_report_rel (Some 1) REL_Y 0, Input_sync (Some 1)]\<rparr>
   \<and> joystick_event EV_ABS ABS_Y 143 (loaded_state\<lparr>sensitivity := 5\<rparr>) =
       loaded_state\<lparr>sensitivity := 5, trace := trace loaded_state @
          [Input_report_rel (Some 1) REL_Y 2, Input_sync (Some 1)]\<rparr>
   \<and> joystick_event EV_ABS ABS_Y 143 (loaded_state\<lparr>sensitivity := - 5\<rparr>) =
       loaded_state\<lparr>sensitivity := - 5, trace := trace loaded_state @
          [Input_report_rel (Some 1) REL_Y (- 2), Input_sync (Some 1)]\<rparr>"
proof -
  have h: "ABS_Y = ABS_X \<or> ABS_Y = ABS_Y" by simp
  have p: "sint ((143 - 128) * 5 :: c_int) \<noteq> - (2 ^ 31)" by simp
  from sensitivity_not_validated [OF h, of 143 loaded_state 5] p
  obtain r where z: "joystick_event EV_ABS ABS_Y 143 (loaded_state\<lparr>sensitivity := 0\<rparr>) =
           loaded_state\<lparr>sensitivity := 0, trace := trace loaded_state @
              [Input_report_rel (virtual_mouse loaded_state) (if ABS_Y = ABS_X then REL_X else REL_Y) 0,
               Input_sync (virtual_mouse loaded_state)]\<rparr>"
    and a: "joystick_event EV_ABS ABS_Y 143 (loaded_state\<lparr>sensitivity := 5\<rparr>) =
                      loaded_state\<lparr>sensitivity := 5, trace := trace loaded_state @
                        [Input_report_rel (virtual_mouse loaded_state)
                           (if ABS_Y = ABS_X then REL_X else REL_Y) r,
                         Input_sync (virtual_mouse loaded_state)]\<rparr>"
    and b: "joystick_event EV_ABS ABS_Y 143 (loaded_state\<lparr>sensitivity := - 5\<rparr>) =
                      loaded_state\<lparr>sensitivity := - 5, trace := trace loaded_state @
                        [Input_report_rel (virtual_mouse loaded_state)
                           (if ABS_Y = ABS_X then REL_X else REL_Y) (- r),
                         Input_sync (virtual_mouse loaded_state)]\<rparr>"
    by blast
  have "trace (joystick_event EV_ABS ABS_Y 143 (loaded_state\<lparr>sensitivity := 5\<rparr>)) =
      trace loaded_state @ [Input_report_rel (Some 1) REL_Y 2, Input_sync (Some 1)]"
    using c_div_examples(1) by (simp add: abs_Y loaded_state_fields)
  with a have r: "r = 2" by simp
  have yx: "ABS_Y \<noteq> ABS_X" by (simp add: input_codes)
  show ?thesis using h p z a b r yx by (simp add: loaded_state_fields)
qed

section \<open>The device matcher: acceptance\<close>

text \<open>
  C3. A candidate device whose \<open>absbit\<close> lacks \<open>ABS_X\<close> or \<open>ABS_Y\<close> is rejected:
  \<open>joystick_connect\<close> returns \<open>-ENODEV\<close> (-19) whatever the value \<open>target\<close> of
  \<open>joystick_id\<close> is, and the state is the one it was called in, so no handle record is
  allocated and no kernel call is made.
\<close>

theorem connect_rejects_without_axes:
  assumes "\<not> (test_bit ABS_X (absbit dev) \<and> test_bit ABS_Y (absbit dev))"
  shows "joystick_connect handler dev env (st\<lparr>joystick_id := target\<rparr>)
           = (- ENODEV, st\<lparr>joystick_id := target\<rparr>)
         \<and> sint (- ENODEV) = - 19
         \<and> handles (snd (joystick_connect handler dev env (st\<lparr>joystick_id := target\<rparr>)))
             = handles st
         \<and> trace (snd (joystick_connect handler dev env (st\<lparr>joystick_id := target\<rparr>)))
             = trace st"
  using connect_reject_caps [OF assms, of handler env "st\<lparr>joystick_id := target\<rparr>"]
  by (simp add: errno_nonzero)

theorem connect_rejects_without_axes_witness:
  "\<not> (test_bit ABS_X (absbit (zero_dev\<lparr>absbit := set_bit ABS_X {}\<rparr>))
      \<and> test_bit ABS_Y (absbit (zero_dev\<lparr>absbit := set_bit ABS_X {}\<rparr>)))
   \<and> joystick_connect ''joystick_drawer'' (zero_dev\<lparr>absbit := set_bit ABS_X {}\<rparr>) connect_ok
        (loaded_state\<lparr>joystick_id := - 1\<rparr>) = (- ENODEV, loaded_state\<lparr>joystick_id := - 1\<rparr>)
   \<and> joystick_connect ''joystick_drawer'' (zero_dev\<lparr>absbit := set_bit ABS_X {}\<rparr>) connect_ok
        (loaded_state\<lparr>joystick_id := 0\<rparr>) = (- ENODEV, loaded_state\<lparr>joystick_id := 0\<rparr>)"
  using connect_rejects_without_axes [OF one_axis_only, where handler = "''joystick_drawer''"
      and env = connect_ok and st = loaded_state and target = "- 1"]
    connect_rejects_without_axes [OF one_axis_only, where handler = "''joystick_drawer''"
      and env = connect_ok and st = loaded_state and target = 0]
    one_axis_only
  by simp

text \<open>
  C4. When \<open>joystick_id\<close> is not -1 and differs from the candidate's product identity,
  \<open>joystick_connect\<close> returns \<open>-ENODEV\<close> and leaves the state as it was. The test comes
  before the capability test: the answer is the same for every capability set the
  candidate could have, the one with both axes included.
\<close>

theorem connect_rejects_other_product:
  assumes "joystick_id st \<noteq> - 1" and "ucast (id_product dev) \<noteq> joystick_id st"
  shows "joystick_connect handler dev env st = (- ENODEV, st)
         \<and> sint (- ENODEV) = - 19
         \<and> (\<forall>caps. joystick_connect handler (dev\<lparr>absbit := caps\<rparr>) env st = (- ENODEV, st))"
proof -
  have "joystick_connect handler (dev\<lparr>absbit := caps\<rparr>) env st = (- ENODEV, st)" for caps
    using assms by (simp add: connect_reject_id)
  then show ?thesis using assms by (simp add: connect_reject_id errno_nonzero)
qed

theorem connect_rejects_other_product_witness:
  "joystick_id (loaded_state\<lparr>joystick_id := 7\<rparr>) \<noteq> - 1
   \<and> ucast (id_product (joystick_dev 8 ''pad'')) \<noteq> joystick_id (loaded_state\<lparr>joystick_id := 7\<rparr>)
   \<and> test_bit ABS_X (absbit (joystick_dev 8 ''pad''))
   \<and> test_bit ABS_Y (absbit (joystick_dev 8 ''pad''))
   \<and> joystick_connect ''joystick_drawer'' (joystick_dev 8 ''pad'') connect_ok
        (loaded_state\<lparr>joystick_id := 7\<rparr>) = (- ENODEV, loaded_state\<lparr>joystick_id := 7\<rparr>)"
proof -
  have a: "joystick_id (loaded_state\<lparr>joystick_id := 7\<rparr>) \<noteq> - 1" by simp
  have b: "ucast (id_product (joystick_dev 8 ''pad'')) \<noteq> joystick_id (loaded_state\<lparr>joystick_id := 7\<rparr>)"
    by (simp add: joystick_dev_fields)
  show ?thesis
    using connect_rejects_other_product [OF a b, where handler = "''joystick_drawer''"
        and env = connect_ok]
      a b joystick_dev_axes [of 8 "''pad''"]
    by simp
qed

section \<open>The device matcher: failures of the bind sequence\<close>

text \<open>
  C6. For an accepted candidate whose handle record was allocated: when
  \<open>input_register_handle\<close> fails, the record is freed and the error returned, with no
  other call; when \<open>input_open_device\<close> fails after a successful registration, the
  handle is unregistered, then the record is freed, then the error is returned. On every
  path on which \<open>joystick_connect\<close> returns a nonzero code, the registered handles, the
  open handles, the allocated handle records and \<open>joystick_handle\<close> are as before.
\<close>

theorem connect_failure_unwinds:
  assumes "host_wf st" and "joystick_connect handler dev env st = (r, st')"
  shows "(accepts st dev \<and> kzalloc_ok env \<and> register_handle_ret env \<noteq> 0 \<longrightarrow>
            r = register_handle_ret env
            \<and> trace st' = trace st @
                [Kzalloc (Some (next_addr st)),
                 Input_register_handle (Some (next_addr st)) (register_handle_ret env),
                 Kfree (Some (next_addr st))])
         \<and> (accepts st dev \<and> kzalloc_ok env \<and> register_handle_ret env = 0
              \<and> open_device_ret env \<noteq> 0 \<longrightarrow>
            r = open_device_ret env
            \<and> trace st' = trace st @
                [Kzalloc (Some (next_addr st)),
                 Input_register_handle (Some (next_addr st)) 0,
                 Input_open_device (Some (next_addr st)) (open_device_ret env),
                 Input_unregister_handle (Some (next_addr st)),
                 Kfree (Some (next_addr st))])
         \<and> (r \<noteq> 0 \<longrightarrow>
              registered_handles st' = registered_handles st
              \<and> open_handles st' = open_handles st
              \<and> handles st' = handles st
              \<and> joystick_handle st' = joystick_handle st)"
proof (intro conjI)
  show "accepts st dev \<and> kzalloc_ok env \<and> register_handle_ret env \<noteq> 0 \<longrightarrow>
            r = register_handle_ret env
            \<and> trace st' = trace st @
                [Kzalloc (Some (next_addr st)),
                 Input_register_handle (Some (next_addr st)) (register_handle_ret env),
                 Kfree (Some (next_addr st))]"
    using assms(2) by (auto simp: connect_register_failed)
next
  show "accepts st dev \<and> kzalloc_ok env \<and> register_handle_ret env = 0
              \<and> open_device_ret env \<noteq> 0 \<longrightarrow>
            r = open_device_ret env
            \<and> trace st' = trace st @
                [Kzalloc (Some (next_addr st)),
                 Input_register_handle (Some (next_addr st)) 0,
                 Input_open_device (Some (next_addr st)) (open_device_ret env),
                 Input_unregister_handle (Some (next_addr st)),
                 Kfree (Some (next_addr st))]"
    using assms(2) by (auto simp: connect_open_failed)
next
  show "r \<noteq> 0 \<longrightarrow>
              registered_handles st' = registered_handles st
              \<and> open_handles st' = open_handles st
              \<and> handles st' = handles st
              \<and> joystick_handle st' = joystick_handle st"
    using connect_failure_frame [OF assms] by blast
qed

theorem connect_failure_unwinds_witness:
  "host_wf loaded_state
   \<and> accepts loaded_state (joystick_dev 1 ''pad'')
   \<and> fst (joystick_connect ''joystick_drawer'' (joystick_dev 1 ''pad'')
            (connect_ok\<lparr>open_device_ret := - 16\<rparr>) loaded_state) = - 16
   \<and> trace (snd (joystick_connect ''joystick_drawer'' (joystick_dev 1 ''pad'')
            (connect_ok\<lparr>open_device_ret := - 16\<rparr>) loaded_state)) =
       trace loaded_state @
         [Kzalloc (Some 3), Input_register_handle (Some 3) 0, Input_open_device (Some 3) (- 16),
          Input_unregister_handle (Some 3), Kfree (Some 3)]
   \<and> registered_handles (snd (joystick_connect ''joystick_drawer'' (joystick_dev 1 ''pad'')
            (connect_ok\<lparr>open_device_ret := - 16\<rparr>) loaded_state)) = {}
   \<and> joystick_handle (snd (joystick_connect ''joystick_drawer'' (joystick_dev 1 ''pad'')
            (connect_ok\<lparr>open_device_ret := - 16\<rparr>) loaded_state)) = None"
proof -
  let ?env = "connect_ok\<lparr>open_device_ret := - 16\<rparr>"
  let ?c = "joystick_connect ''joystick_drawer'' (joystick_dev 1 ''pad'') ?env loaded_state"
  have c: "?c = (fst ?c, snd ?c)" by simp
  have e: "accepts loaded_state (joystick_dev 1 ''pad'') \<and> kzalloc_ok ?env
      \<and> register_handle_ret ?env = 0 \<and> open_device_ret ?env \<noteq> 0"
    by (simp add: accepts_loaded connect_ok_fields)
  from connect_failure_unwinds [OF host_wf_loaded c] e
  have "fst ?c = open_device_ret ?env"
    and "trace (snd ?c) = trace loaded_state @
                [Kzalloc (Some (next_addr loaded_state)),
                 Input_register_handle (Some (next_addr loaded_state)) 0,
                 Input_open_device (Some (next_addr loaded_state)) (open_device_ret ?env),
                 Input_unregister_handle (Some (next_addr loaded_state)),
                 Kfree (Some (next_addr loaded_state))]"
    and "fst ?c \<noteq> 0 \<longrightarrow> registered_handles (snd ?c) = registered_handles loaded_state
         \<and> joystick_handle (snd ?c) = joystick_handle loaded_state"
    by blast+
  then show ?thesis
    using host_wf_loaded accepts_loaded [of 1 "''pad''"] by (simp add: loaded_state_fields)
qed

section \<open>The device matcher: how many Bindings\<close>

text \<open>
  C7, as stated: while a Binding is live, a second acceptance cannot create another one.
  It fails: \<open>joystick_connect\<close> never looks at \<open>joystick_handle\<close>. After the module
  load, two candidates with both axes are offered one after the other; both calls return
  0, the first Binding (handle 3) is live when the second call is made, and afterwards
  two Bindings (handles 3 and 4) are live.
\<close>

theorem second_binding_counterexample:
  "live_bindings (snd (joystick_connect ''joystick_drawer'' (joystick_dev 1 ''pad one'')
      connect_ok loaded_state)) = {3}
   \<and> fst (connect_all ''joystick_drawer''
        [(joystick_dev 1 ''pad one'', connect_ok), (joystick_dev 2 ''pad two'', connect_ok)]
        loaded_state) = [0, 0]
   \<and> live_bindings (snd (connect_all ''joystick_drawer''
        [(joystick_dev 1 ''pad one'', connect_ok), (joystick_dev 2 ''pad two'', connect_ok)]
        loaded_state)) = {3, 4}
   \<and> \<not> card (live_bindings (snd (connect_all ''joystick_drawer''
        [(joystick_dev 1 ''pad one'', connect_ok), (joystick_dev 2 ''pad two'', connect_ok)]
        loaded_state))) \<le> 1"
  by (simp add: two_pads_connected del: connect_all.simps)

text \<open>
  C7, amended. At most one Binding is tracked at any time: \<open>joystick_handle\<close> is one
  pointer. For every sequence of connect callbacks, each call that returns 0 adds one live
  Binding to those that were live, the others add none, and none is removed; if a call
  returned 0, \<open>joystick_handle\<close> is the newest live Binding (the one with the highest
  address), created by this sequence; otherwise \<open>joystick_handle\<close> and the live Bindings
  are unchanged.
\<close>

theorem bindings_grow_with_each_accept:
  assumes "host_wf st" and "connect_all handler cs st = (rs, st')"
  shows "card (live_bindings st') = card (live_bindings st) + length (filter (\<lambda>r. r = 0) rs)
     \<and> live_bindings st \<subseteq> live_bindings st'
     \<and> (0 \<in> set rs \<longrightarrow>
          (\<exists>h. joystick_handle st' = Some h \<and> h \<in> live_bindings st' \<and> h \<notin> live_bindings st
              \<and> (\<forall>h' \<in> live_bindings st'. h' \<le> h)))
     \<and> (0 \<notin> set rs \<longrightarrow>
          joystick_handle st' = joystick_handle st \<and> live_bindings st' = live_bindings st)"
  using assms
proof (induction cs arbitrary: st rs st')
  case Nil
  then show ?case by simp
next
  case (Cons c cs)
  obtain dev env where ce: "c = (dev, env)" by (cases c)
  obtain r st1 where j: "joystick_connect handler dev env st = (r, st1)"
    by (cases "joystick_connect handler dev env st")
  obtain rs' st2 where ca: "connect_all handler cs st1 = (rs', st2)"
    by (cases "connect_all handler cs st1")
  have res: "rs = r # rs'" "st' = st2" using Cons.prems(2) ce j ca by simp_all
  have wf1: "host_wf st1" using Cons.prems(1) j by (rule connect_preserves_wf)
  note ih = Cons.IH [OF wf1 ca]
  show ?case
  proof (cases "r = 0")
    case False
    from connect_failed_step [OF Cons.prems(1) j False] ih False
    show ?thesis unfolding res by simp
  next
    case True
    let ?h = "next_addr st"
    from connect_bound_step [OF j True]
    have l1: "live_bindings st1 = insert ?h (live_bindings st)"
      and j1: "joystick_handle st1 = Some ?h" .
    have fresh: "?h \<notin> live_bindings st"
      using live_below_next [OF Cons.prems(1), of ?h] by blast
    have below: "\<forall>h' \<in> live_bindings st1. h' \<le> ?h"
      using live_below_next [OF Cons.prems(1)] l1 by (auto simp: less_imp_le)
    have card1: "card (live_bindings st1) = Suc (card (live_bindings st))"
      using l1 fresh finite_live [OF Cons.prems(1)] by simp
    have tracked: "\<exists>h. joystick_handle st2 = Some h \<and> h \<in> live_bindings st2
        \<and> h \<notin> live_bindings st \<and> (\<forall>h' \<in> live_bindings st2. h' \<le> h)"
    proof (cases "0 \<in> set rs'")
      case True
      with ih obtain h where "joystick_handle st2 = Some h" "h \<in> live_bindings st2"
        "h \<notin> live_bindings st1" "\<forall>h' \<in> live_bindings st2. h' \<le> h" by blast
      then show ?thesis using l1 by blast
    next
      case False
      with ih have "joystick_handle st2 = joystick_handle st1" "live_bindings st2 = live_bindings st1"
        by simp_all
      then show ?thesis using j1 l1 fresh below by simp
    qed
    have sub: "live_bindings st \<subseteq> live_bindings st2" using ih l1 by blast
    have card2: "card (live_bindings st2) =
        card (live_bindings st) + length (filter (\<lambda>r. r = 0) (r # rs'))"
      using ih card1 True by simp
    show ?thesis unfolding res using tracked sub card2 True by simp
  qed
qed

theorem bindings_grow_with_each_accept_witness:
  "host_wf loaded_state
   \<and> fst (connect_all ''joystick_drawer''
        [(joystick_dev 1 ''pad one'', connect_ok), (joystick_dev 2 ''pad two'', connect_ok)]
        loaded_state) = [0, 0]
   \<and> card (live_bindings (snd (connect_all ''joystick_drawer''
        [(joystick_dev 1 ''pad one'', connect_ok), (joystick_dev 2 ''pad two'', connect_ok)]
        loaded_state))) = card (live_bindings loaded_state) + 2
   \<and> joystick_handle (snd (connect_all ''joystick_drawer''
        [(joystick_dev 1 ''pad one'', connect_ok), (joystick_dev 2 ''pad two'', connect_ok)]
        loaded_state)) = Some 4
   \<and> live_bindings (snd (connect_all ''joystick_drawer''
        [(joystick_dev 1 ''pad one'', connect_ok), (joystick_dev 2 ''pad two'', connect_ok)]
        loaded_state)) = {3, 4}"
proof -
  let ?cs = "[(joystick_dev 1 ''pad one'', connect_ok), (joystick_dev 2 ''pad two'', connect_ok)]"
  let ?c = "connect_all ''joystick_drawer'' ?cs loaded_state"
  have c: "?c = ([0, 0], snd ?c)"
    using two_pads_connected(2) by (simp add: prod_eq_iff del: connect_all.simps)
  from bindings_grow_with_each_accept [OF host_wf_loaded c]
  have "card (live_bindings (snd ?c)) = card (live_bindings loaded_state) + 2"
    and "\<exists>h. joystick_handle (snd ?c) = Some h \<and> (\<forall>h' \<in> live_bindings (snd ?c). h' \<le> h)"
    by (auto simp del: connect_all.simps)
  then show ?thesis
    using host_wf_loaded two_pads_connected(2,3,4) by (auto simp del: connect_all.simps)
qed

section \<open>The device matcher: disconnect\<close>

text \<open>
  C8, as stated: a disconnect clears the tracked reference. It fails: after a connect that
  bound handle 3, \<open>joystick_disconnect\<close> frees the record of handle 3 and
  \<open>joystick_handle\<close> is still 3.
\<close>

theorem disconnect_counterexample:
  "joystick_handle (snd (joystick_connect ''joystick_drawer'' (joystick_dev 1 ''pad'') connect_ok
      loaded_state)) = Some 3
   \<and> joystick_disconnect 3 (snd (joystick_connect ''joystick_drawer'' (joystick_dev 1 ''pad'')
        connect_ok loaded_state)) \<noteq> None
   \<and> handles (the (joystick_disconnect 3 (snd (joystick_connect ''joystick_drawer''
        (joystick_dev 1 ''pad'') connect_ok loaded_state)))) 3 = None
   \<and> joystick_handle (the (joystick_disconnect 3 (snd (joystick_connect ''joystick_drawer''
        (joystick_dev 1 ''pad'') connect_ok loaded_state)))) = Some 3"
  using pad_bound(2)
  by (simp add: disconnect_live [OF pad_bound(3)])

text \<open>
  C8, amended. On a disconnect notification for a handle whose record is allocated and
  refers to a device, \<open>joystick_disconnect\<close> emits the diagnostic, closes the handle,
  unregisters it and frees its record, in this order; the handle is no longer a live
  Binding; and every candidate device that passes the acceptance tests is then accepted
  (when the kernel's calls succeed) and becomes a live Binding.
\<close>

theorem disconnect_releases_binding:
  assumes "handles st h = Some r" and "h_dev r = Some d"
  shows "\<exists>st'. joystick_disconnect h st = Some st'
     \<and> trace st' = trace st @
          [Printk KERN_INFO (line (''joystick_drawer: Disconnected from '' @ dev_name d)),
           Input_close_device (Some h), Input_unregister_handle (Some h), Kfree (Some h)]
     \<and> h \<notin> open_handles st' \<and> h \<notin> registered_handles st' \<and> handles st' h = None
     \<and> live_bindings st' = live_bindings st - {h}
     \<and> (\<forall>handler dev. accepts st dev \<longrightarrow>
           fst (joystick_connect handler dev connect_ok st') = 0
           \<and> next_addr st' \<in> live_bindings (snd (joystick_connect handler dev connect_ok st')))"
proof -
  let ?st' = "st\<lparr>handles := (handles st)(h := None),
              registered_handles := registered_handles st - {h},
              open_handles := open_handles st - {h},
              trace := trace st @
                [Printk KERN_INFO (line (''joystick_drawer: Disconnected from '' @ dev_name d)),
                 Input_close_device (Some h), Input_unregister_handle (Some h),
                 Kfree (Some h)]\<rparr>"
  have d: "joystick_disconnect h st = Some ?st'"
    using assms by (rule disconnect_live)
  have l: "live_bindings ?st' = live_bindings st - {h}"
    by (auto simp: live_bindings_def)
  have a: "fst (joystick_connect handler dev connect_ok ?st') = 0
           \<and> next_addr ?st' \<in> live_bindings (snd (joystick_connect handler dev connect_ok ?st'))"
    if "accepts st dev" for handler dev
  proof -
    from that have "accepts ?st' dev" by (simp add: accepts_def)
    then show ?thesis by (simp add: connect_ok_success live_bindings_def)
  qed
  show ?thesis
    apply (rule exI [of _ ?st'])
    using d l a by simp
qed

theorem disconnect_releases_binding_witness:
  "handles (snd (joystick_connect ''joystick_drawer'' (joystick_dev 1 ''pad'') connect_ok
      loaded_state)) 3 =
     Some \<lparr>h_dev = Some (joystick_dev 1 ''pad''), h_handler = Some ''joystick_drawer'',
           h_name = Some ''joystick_drawer''\<rparr>
   \<and> h_dev \<lparr>h_dev = Some (joystick_dev 1 ''pad''), h_handler = Some ''joystick_drawer'',
           h_name = Some ''joystick_drawer''\<rparr> = Some (joystick_dev 1 ''pad'')
   \<and> joystick_disconnect 3 (snd (joystick_connect ''joystick_drawer'' (joystick_dev 1 ''pad'')
        connect_ok loaded_state)) \<noteq> None
   \<and> live_bindings (the (joystick_disconnect 3 (snd (joystick_connect ''joystick_drawer''
        (joystick_dev 1 ''pad'') connect_ok loaded_state)))) = {}
   \<and> accepts (snd (joystick_connect ''joystick_drawer'' (joystick_dev 1 ''pad'') connect_ok
        loaded_state)) (joystick_dev 2 ''pad two'')
   \<and> fst (joystick_connect ''joystick_drawer'' (joystick_dev 2 ''pad two'') connect_ok
        (the (joystick_disconnect 3 (snd (joystick_connect ''joystick_drawer''
          (joystick_dev 1 ''pad'') connect_ok loaded_state))))) = 0"
proof -
  define st1 where "st1 = snd (joystick_connect ''joystick_drawer'' (joystick_dev 1 ''pad'')
     connect_ok loaded_state)"
  let ?r = "\<lparr>h_dev = Some (joystick_dev 1 ''pad''), h_handler = Some ''joystick_drawer'',
           h_name = Some ''joystick_drawer''\<rparr>"
  have h: "handles st1 3 = Some ?r" unfolding st1_def by (rule pad_bound(3))
  have d: "h_dev ?r = Some (joystick_dev 1 ''pad'')" by simp
  have a: "accepts st1 (joystick_dev 2 ''pad two'')"
    unfolding st1_def by (simp add: accepts_def pad_bound(5) joystick_dev_axes)
  have l: "live_bindings st1 = {3}" unfolding st1_def by (rule pad_bound(4))
  from disconnect_releases_binding [OF h d] a l
  obtain st' where "joystick_disconnect 3 st1 = Some st'" "live_bindings st' = {}"
    "fst (joystick_connect ''joystick_drawer'' (joystick_dev 2 ''pad two'') connect_ok st') = 0"
    by auto
  then show ?thesis using h d a unfolding st1_def by simp
qed

section \<open>The virtual output devices: creation is all or nothing\<close>

text \<open>
  C5. \<open>create_virtual_devices\<close> returns 0 exactly when the two allocations and the two
  registrations succeed. Then the pointer device and the key-emitter device are two
  distinct new devices, both allocated and both registered. Otherwise it returns a
  nonzero code, and the registered devices and the allocated devices are those of the
  state it started in: nothing it created is left registered or allocated.
\<close>

theorem create_virtual_devices_atomic:
  assumes wf: "host_wf st" and c: "create_virtual_devices env st = (r, st')"
  shows "((r = 0) = (alloc_mouse_ok env \<and> register_mouse_ret env = 0
                    \<and> alloc_keyboard_ok env \<and> register_keyboard_ret env = 0))
     \<and> ((r = 0
          \<and> (\<exists>m k. m \<noteq> k \<and> virtual_mouse st' = Some m \<and> virtual_keyboard st' = Some k
                \<and> m \<notin> registered_devs st \<and> k \<notin> registered_devs st
                \<and> registered_devs st' = registered_devs st \<union> {m, k}
                \<and> devs st' m \<noteq> None \<and> devs st' k \<noteq> None))
        \<or> (r \<noteq> 0 \<and> registered_devs st' = registered_devs st \<and> devs st' = devs st))"
proof -
  have r: "r = fst (create_virtual_devices env st)"
    and st': "st' = snd (create_virtual_devices env st)"
    using c by simp_all
  note fresh = host_wf_fresh [OF wf]
  have fresh2: "Suc (next_addr st) \<notin> dom (devs st)" "Suc (next_addr st) \<notin> registered_devs st"
    using wf by (auto simp: host_wf_alt dest: Suc_lessD)
  show ?thesis
  proof (cases rule: create_result_cases [where env = env])
    case mouse_nomem
    then show ?thesis
      unfolding r st' by (simp add: create_mouse_nomem errno_nonzero)
  next
    case mouse_unregistered
    then show ?thesis
      unfolding r st' using fresh
      by (simp add: create_mouse_unregistered map_upd_fresh)
  next
    case keyboard_nomem
    then show ?thesis
      unfolding r st' using fresh
      by (simp add: create_keyboard_nomem map_upd_fresh minus_fresh errno_nonzero)
  next
    case keyboard_unregistered
    then show ?thesis
      unfolding r st' using fresh fresh2
      by (simp add: create_keyboard_unregistered map_upd_fresh minus_fresh)
  next
    case both
    have "next_addr st \<noteq> Suc (next_addr st)
        \<and> virtual_mouse st' = Some (next_addr st)
        \<and> virtual_keyboard st' = Some (Suc (next_addr st))
        \<and> next_addr st \<notin> registered_devs st \<and> Suc (next_addr st) \<notin> registered_devs st
        \<and> registered_devs st' = registered_devs st \<union> {next_addr st, Suc (next_addr st)}
        \<and> devs st' (next_addr st) \<noteq> None \<and> devs st' (Suc (next_addr st)) \<noteq> None"
      unfolding st' using fresh fresh2
      by (auto simp add: create_both_registered [OF both])
    then have "\<exists>m k. m \<noteq> k \<and> virtual_mouse st' = Some m \<and> virtual_keyboard st' = Some k
                \<and> m \<notin> registered_devs st \<and> k \<notin> registered_devs st
                \<and> registered_devs st' = registered_devs st \<union> {m, k}
                \<and> devs st' m \<noteq> None \<and> devs st' k \<noteq> None"
      by blast
    moreover have "r = 0" unfolding r by (rule create_both_registered(1) [OF both])
    ultimately show ?thesis using both by simp
  qed
qed

theorem create_virtual_devices_atomic_witness:
  "host_wf initial_state
   \<and> create_virtual_devices create_ok initial_state = (0, loaded_state)
   \<and> registered_devs loaded_state = {1, 2}
   \<and> fst (create_virtual_devices (create_ok\<lparr>register_keyboard_ret := - 16\<rparr>) initial_state) = - 16
   \<and> registered_devs (snd (create_virtual_devices (create_ok\<lparr>register_keyboard_ret := - 16\<rparr>)
         initial_state)) = {}
   \<and> devs (snd (create_virtual_devices (create_ok\<lparr>register_keyboard_ret := - 16\<rparr>)
         initial_state)) = Map.empty"
proof -
  let ?bad = "create_ok\<lparr>register_keyboard_ret := - 16\<rparr>"
  let ?c = "create_virtual_devices ?bad initial_state"
  have c: "?c = (fst ?c, snd ?c)" by simp
  have f: "fst ?c = - 16"
    by (simp add: create_keyboard_unregistered create_ok_def)
  from create_virtual_devices_atomic [OF host_wf_initial c] f
  have bad: "registered_devs (snd ?c) = registered_devs initial_state
      \<and> devs (snd ?c) = devs initial_state"
    by simp
  from create_virtual_devices_atomic [OF host_wf_initial create_ok_initial]
  have "\<exists>m k. registered_devs loaded_state = registered_devs initial_state \<union> {m, k}
      \<and> virtual_mouse loaded_state = Some m \<and> virtual_keyboard loaded_state = Some k"
    by auto
  then have good: "registered_devs loaded_state = {1, 2}"
    by (auto simp: loaded_state_fields initial_state_fields)
  show ?thesis
    using host_wf_initial create_ok_initial good f bad by (simp add: initial_state_fields)
qed

end
